theory Spec2Isabelle
  imports Complex_Main "HOL-Library.Log_Nat"
begin

section \<open>The backtest core of bitcoin9to5 (src/lib/strategy.js)\<close>

text \<open>
  The functions of this section compute over \<^typ>\<open>real\<close>, in exact arithmetic: the
  rounding of IEEE doubles is not in them. The next section takes the program once more
  with every operation rounded to a double, and the two properties that the rounding
  decides, the net PnL as a sum over the trade log and the Sharpe ratio, are settled
  there. \<open>NaN\<close> and the infinities are in neither: a quotient whose divisor is zero (which
  JavaScript turns into an infinity or \<open>NaN\<close>) is not given a meaning here.
  A \<open>Date\<close> is its number of milliseconds since the epoch, an \<^typ>\<open>int\<close>.
\<close>

subsection \<open>Data model\<close>

datatype zone = Long | Short

record hm =
  hour :: real
  minute :: real

record config =
  profitTargetPct :: real
  tpZoneTrailingStopPct :: real
  tpZoneHoursThreshold :: real
  leverage :: real
  shortZoneStart :: hm
  shortZoneEnd :: hm

record costConfig =
  takerFeeBps :: real
  makerRebateBps :: real
  slippageBps :: real
  avgFundingRateBps :: real
  fundingIntervalHours :: real

record candle =
  timestamp :: int
  price :: real
  high :: real
  low :: real

definition DEFAULT_CONFIG :: config where
  "DEFAULT_CONFIG =
     \<lparr>profitTargetPct = 1, tpZoneTrailingStopPct = 1 / 2, tpZoneHoursThreshold = 6,
      leverage = 10, shortZoneStart = \<lparr>hour = 9, minute = 29\<rparr>,
      shortZoneEnd = \<lparr>hour = 16, minute = 1\<rparr>\<rparr>"

definition DEFAULT_COSTS :: costConfig where
  "DEFAULT_COSTS =
     \<lparr>takerFeeBps = 5, makerRebateBps = 0, slippageBps = 5,
      avgFundingRateBps = 1, fundingIntervalHours = 8\<rparr>"

subsection \<open>Reading a Date\<close>

definition getUTCHours :: "int \<Rightarrow> int" where
  "getUTCHours ms = (ms div 3600000) mod 24"

definition getUTCMinutes :: "int \<Rightarrow> int" where
  "getUTCMinutes ms = (ms div 60000) mod 60"

text \<open>Day of the week, 0 = Sunday .. 6 = Saturday; 1 January 1970 was a Thursday.\<close>

definition getUTCDay :: "int \<Rightarrow> int" where
  "getUTCDay ms = (ms div 86400000 + 4) mod 7"

text \<open>
  \<open>date.toISOString().split('T')[0]\<close> is the UTC calendar date. It is kept as the
  triple (year, month, day) of the proleptic Gregorian calendar instead of the text
  \<open>YYYY-MM-DD\<close>.
\<close>

definition isoDate :: "int \<Rightarrow> int \<times> int \<times> int" where
  "isoDate ms =
     (let z = ms div 86400000 + 719468;
          era = z div 146097;
          doe = z mod 146097;
          yoe = (doe - doe div 1460 + doe div 36524 - doe div 146096) div 365;
          doy = doe - (365 * yoe + yoe div 4 - yoe div 100);
          mp = (5 * doy + 2) div 153;
          d = doy - (153 * mp + 2) div 5 + 1;
          m = (if mp < 10 then mp + 3 else mp - 9);
          y = yoe + era * 400 + (if m \<le> 2 then 1 else 0)
      in (y, m, d))"

definition HOLIDAYS :: "(int \<times> int \<times> int) list" where
  "HOLIDAYS =
     [(2025, 12, 25), (2026, 1, 1), (2026, 1, 19), (2026, 2, 16), (2026, 4, 3),
      (2026, 5, 25), (2026, 6, 19), (2026, 7, 6), (2026, 9, 7), (2026, 11, 26),
      (2026, 12, 25)]"

subsection \<open>Zone classifier\<close>

definition getZone :: "int \<Rightarrow> config \<Rightarrow> zone" where
  "getZone date cfg =
     (let hr = real_of_int (getUTCHours date - 5);
          mn = real_of_int (getUTCMinutes date);
          dayOfWeek = getUTCDay date
      in if dayOfWeek = 0 \<or> dayOfWeek = 6 then Long
         else if isoDate date \<in> set HOLIDAYS then Long
         else
           let afterOpen = (hr > hour (shortZoneStart cfg) \<or>
                  (hr = hour (shortZoneStart cfg) \<and> mn \<ge> minute (shortZoneStart cfg)));
               beforeClose = (hr < hour (shortZoneEnd cfg) \<or>
                  (hr = hour (shortZoneEnd cfg) \<and> mn < minute (shortZoneEnd cfg)))
           in if afterOpen \<and> beforeClose then Short else Long)"

subsection \<open>Profit and the take-profit zone\<close>

definition calcProfitPct :: "real \<Rightarrow> real \<Rightarrow> zone \<Rightarrow> real" where
  "calcProfitPct entryPrice currentPrice sd =
     (let priceDiff = (if sd = Short then entryPrice - currentPrice
                       else currentPrice - entryPrice)
      in (priceDiff / entryPrice) * 100)"

definition shouldEnterTpZone :: "zone \<Rightarrow> real \<Rightarrow> real \<Rightarrow> bool" where
  "shouldEnterTpZone sd hoursUntilShort threshold \<longleftrightarrow>
     sd = Long \<and> hoursUntilShort > threshold"

text \<open>The result record \<open>{ shouldExit, reason }\<close>: \<open>None\<close> is no exit.\<close>

definition checkTpZoneExit ::
  "real \<Rightarrow> real \<Rightarrow> real \<Rightarrow> real \<Rightarrow> real \<Rightarrow> real \<Rightarrow> string option" where
  "checkTpZoneExit currentPrice entryPrice peak trailingStopPct hoursUntilShort hoursThreshold =
     (if currentPrice < entryPrice then Some ''below-entry''
      else if ((peak - currentPrice) / peak) * 100 \<ge> trailingStopPct
           then Some ''trailing-stop''
      else if hoursUntilShort \<le> hoursThreshold then Some ''time-exit''
      else None)"

subsection \<open>Hours until the next short zone\<close>

text \<open>
  The \<open>while\<close> loop that skips Saturday and Sunday, on the pair
  \<open>(daysUntil, nextDay)\<close>; it returns \<open>daysUntil\<close>.
\<close>

function skipWeekend :: "int \<Rightarrow> int \<Rightarrow> int" where
  "skipWeekend daysUntil nextDay =
     (if nextDay = 0 \<or> nextDay = 6
      then skipWeekend (daysUntil + 1) ((nextDay + 1) mod 7)
      else daysUntil)"
  by pat_completeness auto
termination
  by (relation "measure (\<lambda>(d, n). if n = 6 then 2 else if n = 0 then 1 else 0)") auto

definition getHoursUntilShortZone :: "int \<Rightarrow> config \<Rightarrow> real" where
  "getHoursUntilShortZone date cfg =
     (let etHour = getUTCHours date - 5;
          etMinute = getUTCMinutes date;
          dayOfWeek = getUTCDay date;
          targetMinutes = hour (shortZoneStart cfg) * 60 + minute (shortZoneStart cfg);
          currentMinutes = real_of_int (etHour * 60 + etMinute)
      in if dayOfWeek \<ge> 1 \<and> dayOfWeek \<le> 5 \<and> currentMinutes < targetMinutes
         then (targetMinutes - currentMinutes) / 60
         else
           let daysUntil = skipWeekend 1 ((dayOfWeek + 1) mod 7);
               hoursToMidnight = (24 * 60 - currentMinutes) / 60;
               hoursAfterMidnight = targetMinutes / 60
           in hoursToMidnight + real_of_int (daysUntil - 1) * 24 + hoursAfterMidnight)"

subsection \<open>Cost model\<close>

record costBreakdown =
  feesPct :: real
  slippagePct :: real
  fundingPct :: real
  fundingPeriods :: int
  totalCostPct :: real
  leveragedCostPct :: real

definition calcTradePnl :: "real \<Rightarrow> real \<Rightarrow> zone \<Rightarrow> real \<Rightarrow> real" where
  "calcTradePnl entryPrice exitPrice sd lev =
     (let pricePct = calcProfitPct entryPrice exitPrice sd in pricePct * lev)"

text \<open>
  \<open>calcTradingCosts\<close> returns \<open>{ totalCostPct, breakdown }\<close>; the breakdown is a
  \<^typ>\<open>costBreakdown\<close> whose \<open>leveragedCostPct\<close> is not yet known (0 here), filled in
  by \<open>calcNetPnl\<close>.
\<close>

definition calcTradingCosts :: "real \<Rightarrow> real \<Rightarrow> zone \<Rightarrow> costConfig \<Rightarrow> costBreakdown" where
  "calcTradingCosts notionalValue durHours sd cc =
     (let entryFeePct = takerFeeBps cc / 100;
          exitFeePct = takerFeeBps cc / 100;
          totalFeesPct = entryFeePct + exitFeePct;
          entrySlippagePct = slippageBps cc / 100;
          exitSlippagePct = slippageBps cc / 100;
          totalSlippagePct = entrySlippagePct + exitSlippagePct;
          periods = \<lfloor>durHours / fundingIntervalHours cc\<rfloor>;
          fundingPerPeriodPct = avgFundingRateBps cc / 100;
          fundingMultiplier = (if sd = Long then 1 else - 1);
          totalFundingPct = real_of_int periods * fundingPerPeriodPct * fundingMultiplier;
          total = totalFeesPct + totalSlippagePct + totalFundingPct
      in \<lparr>feesPct = totalFeesPct, slippagePct = totalSlippagePct,
          fundingPct = totalFundingPct, fundingPeriods = periods,
          totalCostPct = total, leveragedCostPct = 0\<rparr>)"

text \<open>\<open>calcNetPnl\<close> returns \<open>{ grossPnlPct, netPnlPct, costs }\<close>, here a triple.\<close>

definition calcNetPnl ::
  "real \<Rightarrow> real \<Rightarrow> zone \<Rightarrow> real \<Rightarrow> real \<Rightarrow> costConfig \<Rightarrow> real \<times> real \<times> costBreakdown" where
  "calcNetPnl entryPrice exitPrice sd lev durHours cc =
     (let gross = calcTradePnl entryPrice exitPrice sd lev;
          notionalValue = 1;
          breakdown = calcTradingCosts notionalValue durHours sd cc;
          levCost = totalCostPct breakdown * lev;
          net = gross - levCost
      in (gross, net, breakdown\<lparr>leveragedCostPct := levCost\<rparr>))"

subsection \<open>Positions and trades\<close>

record position =
  side :: zone
  entryPrice :: real
  entryTime :: int
  inTpZone :: bool
  peakPrice :: "real option"

record trade =
  entryTime :: int
  exitTime :: int
  entryPrice :: real
  exitPrice :: real
  side :: zone
  exitReason :: string
  grossPnlPct :: real
  netPnlPct :: real
  durationHours :: real
  costs :: costBreakdown

definition closeTrade ::
  "position \<Rightarrow> real \<Rightarrow> int \<Rightarrow> string \<Rightarrow> config \<Rightarrow> costConfig \<Rightarrow> trade" where
  "closeTrade p exitPrice' exitTime' reason cfg cc =
     (let durHours = real_of_int (exitTime' - position.entryTime p) / (1000 * 60 * 60)
      in case calcNetPnl (position.entryPrice p) exitPrice' (position.side p)
                (leverage cfg) durHours cc of
           (gross, net, costBreakdown) \<Rightarrow>
             \<lparr>entryTime = position.entryTime p, exitTime = exitTime',
              entryPrice = position.entryPrice p, exitPrice = exitPrice',
              side = position.side p, exitReason = reason,
              grossPnlPct = gross, netPnlPct = net,
              durationHours = durHours, costs = costBreakdown\<rparr>)"

subsection \<open>The backtest loop\<close>

record totalCosts =
  fees :: real
  slippage :: real
  funding :: real

text \<open>The local variables of \<open>runBacktest\<close>.\<close>

record state =
  trades :: "trade list"
  position :: "position option"
  previousZone :: "zone option"
  equity :: real
  peakEquity :: real
  maxDrawdown :: real
  totalCosts :: totalCosts

definition initState :: state where
  "initState =
     \<lparr>trades = [], position = None, previousZone = None, equity = 100,
      peakEquity = 100, maxDrawdown = 0,
      totalCosts = \<lparr>fees = 0, slippage = 0, funding = 0\<rparr>\<rparr>"

text \<open>
  The five lines that follow every \<open>closeTrade\<close> call of \<open>runBacktest\<close>:
  push the trade, add its net PnL to the equity, add its costs to the totals.
\<close>

definition recordTrade :: "config \<Rightarrow> trade \<Rightarrow> state \<Rightarrow> state" where
  "recordTrade cfg t st =
     st\<lparr>trades := trades st @ [t],
        equity := equity st + netPnlPct t,
        totalCosts :=
          \<lparr>fees = fees (totalCosts st) + feesPct (costs t) * leverage cfg,
           slippage = slippage (totalCosts st) + slippagePct (costs t) * leverage cfg,
           funding = funding (totalCosts st) + fundingPct (costs t) * leverage cfg\<rparr>\<rparr>"

text \<open>A \<open>null\<close> peak price, where JavaScript compares it or computes with it, is 0.\<close>

definition toNumber :: "real option \<Rightarrow> real" where
  "toNumber v = (case v of None \<Rightarrow> 0 | Some x \<Rightarrow> x)"

text \<open>Lines 521 to 541: the zone flip.\<close>

definition zoneFlip :: "config \<Rightarrow> costConfig \<Rightarrow> candle \<Rightarrow> zone \<Rightarrow> state \<Rightarrow> state" where
  "zoneFlip cfg cc c currentZone st =
     (if previousZone st \<noteq> None \<and> Some currentZone \<noteq> previousZone st then
        let st1 = (case position st of
                     Some p \<Rightarrow>
                       (recordTrade cfg
                          (closeTrade p (price c) (timestamp c) ''zone-flip'' cfg cc) st)
                       \<lparr>position := None\<rparr>
                   | None \<Rightarrow> st)
        in st1\<lparr>position :=
                 Some \<lparr>position.side = currentZone, position.entryPrice = price c,
                       position.entryTime = timestamp c, inTpZone = False,
                       peakPrice = None\<rparr>\<rparr>
      else st)"

text \<open>Lines 544 to 621: the take-profit zone and the profit target.\<close>

definition checkPosition :: "config \<Rightarrow> costConfig \<Rightarrow> candle \<Rightarrow> state \<Rightarrow> state" where
  "checkPosition cfg cc c st =
     (case position st of
        None \<Rightarrow> st
      | Some p \<Rightarrow>
          let profitPct = calcProfitPct (position.entryPrice p) (price c) (position.side p);
              worstPrice = (if position.side p = Long then low c else high c);
              bestPrice = (if position.side p = Long then high c else low c);
              worstProfitPct = calcProfitPct (position.entryPrice p) worstPrice (position.side p);
              bestProfitPct = calcProfitPct (position.entryPrice p) bestPrice (position.side p)
          in
          if position.side p = Long \<and> inTpZone p then
            let p1 = (if high c > toNumber (peakPrice p)
                      then p\<lparr>peakPrice := Some (high c)\<rparr> else p);
                hoursUntilShort = getHoursUntilShortZone (timestamp c) cfg;
                exitCheck = checkTpZoneExit (low c) (position.entryPrice p1)
                              (toNumber (peakPrice p1)) (tpZoneTrailingStopPct cfg)
                              hoursUntilShort (tpZoneHoursThreshold cfg)
            in case exitCheck of
                 Some reason \<Rightarrow>
                   let exitPrice' =
                         (if reason = ''trailing-stop''
                          then toNumber (peakPrice p1) * (1 - tpZoneTrailingStopPct cfg / 100)
                          else if reason = ''below-entry''
                          then position.entryPrice p1 * (999 / 1000)
                          else price c)
                   in (recordTrade cfg
                         (closeTrade p1 exitPrice' (timestamp c) (''tp-'' @ reason) cfg cc) st)
                      \<lparr>position := None\<rparr>
               | None \<Rightarrow> st\<lparr>position := Some p1\<rparr>
          else if bestProfitPct \<ge> profitTargetPct cfg then
            let targetPrice =
                  (if position.side p = Long
                   then position.entryPrice p * (1 + profitTargetPct cfg / 100)
                   else position.entryPrice p * (1 - profitTargetPct cfg / 100))
            in
            if position.side p = Long then
              let hoursUntilShort = getHoursUntilShortZone (timestamp c) cfg
              in if shouldEnterTpZone (position.side p) hoursUntilShort
                      (tpZoneHoursThreshold cfg)
                 then st\<lparr>position := Some (p\<lparr>inTpZone := True, peakPrice := Some bestPrice\<rparr>)\<rparr>
                 else (recordTrade cfg
                         (closeTrade p targetPrice (timestamp c) ''profit-target'' cfg cc) st)
                      \<lparr>position := None\<rparr>
            else (recordTrade cfg
                    (closeTrade p targetPrice (timestamp c) ''profit-target'' cfg cc) st)
                 \<lparr>position := None\<rparr>
          else st)"

text \<open>Lines 623 to 630: the drawdown.\<close>

definition trackDrawdown :: "state \<Rightarrow> state" where
  "trackDrawdown st =
     (let pk = (if equity st > peakEquity st then equity st else peakEquity st);
          drawdown = ((pk - equity st) / pk) * 100
      in st\<lparr>peakEquity := pk,
            maxDrawdown := (if drawdown > maxDrawdown st then drawdown else maxDrawdown st)\<rparr>)"

text \<open>One iteration of the \<open>for\<close> loop.\<close>

definition step :: "config \<Rightarrow> costConfig \<Rightarrow> state \<Rightarrow> candle \<Rightarrow> state" where
  "step cfg cc st c =
     (let currentZone = getZone (timestamp c) cfg
      in (trackDrawdown (checkPosition cfg cc c (zoneFlip cfg cc c currentZone st)))
         \<lparr>previousZone := Some currentZone\<rparr>)"

fun loop :: "config \<Rightarrow> costConfig \<Rightarrow> state \<Rightarrow> candle list \<Rightarrow> state" where
  "loop cfg cc st [] = st"
| "loop cfg cc st (c # rest) = loop cfg cc (step cfg cc st c) rest"

text \<open>Lines 635 to 644: a position still open after the last candle is closed there.\<close>

definition closeRemaining :: "config \<Rightarrow> costConfig \<Rightarrow> candle list \<Rightarrow> state \<Rightarrow> state" where
  "closeRemaining cfg cc priceData st =
     (case position st of
        Some p \<Rightarrow>
          if length priceData > 0 then
            let lastCandle = last priceData
            in recordTrade cfg
                 (closeTrade p (price lastCandle) (timestamp lastCandle)
                    ''backtest-end'' cfg cc) st
          else st
      | None \<Rightarrow> st)"

subsection \<open>Stats aggregator\<close>

record reasonStats =
  count :: nat
  grossPnl :: real
  netPnl :: real

record sideStats =
  count :: nat
  winRate :: real
  grossPnl :: real
  netPnl :: real

record stats =
  totalTrades :: nat
  winningTrades :: nat
  losingTrades :: nat
  avgWin :: real
  avgLoss :: real
  avgTradeDuration :: real
  longStats :: sideStats
  shortStats :: sideStats
  byExitReason :: "(string \<times> reasonStats) list"
  totalCosts :: totalCosts
  costs :: costConfig
  config :: config

record backtestResult =
  trades :: "trade list"
  grossPnlPct :: real
  netPnlPct :: real
  totalPnlPct :: real
  winRate :: real
  maxDrawdownPct :: real
  sharpeRatio :: real
  stats :: stats

text \<open>
  The object \<open>byReason\<close>, its keys in insertion order: one pass of the \<open>for\<close> loop
  over the trades.
\<close>

fun addReason :: "trade \<Rightarrow> (string \<times> reasonStats) list \<Rightarrow> (string \<times> reasonStats) list" where
  "addReason t [] =
     [(exitReason t,
       \<lparr>reasonStats.count = 1, reasonStats.grossPnl = 0 + trade.grossPnlPct t,
        reasonStats.netPnl = 0 + trade.netPnlPct t\<rparr>)]"
| "addReason t ((k, r) # rest) =
     (if k = exitReason t
      then (k, \<lparr>reasonStats.count = reasonStats.count r + 1,
                reasonStats.grossPnl = reasonStats.grossPnl r + trade.grossPnlPct t,
                reasonStats.netPnl = reasonStats.netPnl r + trade.netPnlPct t\<rparr>) # rest
      else (k, r) # addReason t rest)"

definition sideStatsOf :: "trade list \<Rightarrow> sideStats" where
  "sideStatsOf ts =
     \<lparr>sideStats.count = length ts,
      sideStats.winRate =
        (if length ts > 0
         then (real (length (filter (\<lambda>t. trade.netPnlPct t > 0) ts)) / real (length ts)) * 100
         else 0),
      sideStats.grossPnl = foldl (\<lambda>a t. a + trade.grossPnlPct t) 0 ts,
      sideStats.netPnl = foldl (\<lambda>a t. a + trade.netPnlPct t) 0 ts\<rparr>"

definition calculateStats ::
  "trade list \<Rightarrow> real \<Rightarrow> real \<Rightarrow> config \<Rightarrow> costConfig \<Rightarrow> totalCosts \<Rightarrow> backtestResult" where
  "calculateStats ts finalEquity maxDd cfg cc tc =
     (let winning = filter (\<lambda>t. trade.netPnlPct t > 0) ts;
          losing = filter (\<lambda>t. trade.netPnlPct t \<le> 0) ts;
          longTrades = filter (\<lambda>t. trade.side t = Long) ts;
          shortTrades = filter (\<lambda>t. trade.side t = Short) ts;
          net = finalEquity - 100;
          gross = foldl (\<lambda>a t. a + trade.grossPnlPct t) 0 ts;
          returns = map trade.netPnlPct ts;
          avgReturn = (if length returns > 0
                       then foldl (\<lambda>a b. a + b) 0 returns / real (length returns) else 0);
          stdDev = (if length returns > 1
                    then sqrt (foldl (\<lambda>sum r. sum + (r - avgReturn) ^ 2) 0 returns
                               / (real (length returns) - 1))
                    else 0);
          sharpe = (if stdDev > 0 then (avgReturn / stdDev) * sqrt 252 else 0);
          byReason = foldl (\<lambda>acc t. addReason t acc) [] ts
      in \<lparr>trades = ts, grossPnlPct = gross, netPnlPct = net, totalPnlPct = net,
          winRate = (if length ts > 0
                     then (real (length winning) / real (length ts)) * 100 else 0),
          maxDrawdownPct = maxDd, sharpeRatio = sharpe,
          stats =
            \<lparr>totalTrades = length ts, winningTrades = length winning,
             losingTrades = length losing,
             avgWin = (if length winning > 0
                       then foldl (\<lambda>a t. a + trade.netPnlPct t) 0 winning
                            / real (length winning) else 0),
             avgLoss = (if length losing > 0
                        then foldl (\<lambda>a t. a + trade.netPnlPct t) 0 losing
                             / real (length losing) else 0),
             avgTradeDuration = (if length ts > 0
                                 then foldl (\<lambda>a t. a + durationHours t) 0 ts
                                      / real (length ts) else 0),
             longStats = sideStatsOf longTrades,
             shortStats = sideStatsOf shortTrades,
             byExitReason = byReason, totalCosts = tc, costs = cc, config = cfg\<rparr>\<rparr>)"

definition runBacktest :: "candle list \<Rightarrow> config \<Rightarrow> costConfig \<Rightarrow> backtestResult" where
  "runBacktest priceData cfg cc =
     (let st = closeRemaining cfg cc priceData (loop cfg cc initState priceData)
      in calculateStats (state.trades st) (equity st) (maxDrawdown st) cfg cc
           (state.totalCosts st))"

section \<open>The same program over IEEE doubles\<close>

text \<open>
  Where the rounding of JavaScript's numbers decides a property, the functions above are
  taken once more with every arithmetic operation rounded to a double. \<open>dbl\<close> rounds a
  real to the nearest number with a significand of 53 bits, ties to the even
  significand (the IEEE 754 default). The exponent is not bounded here: overflow to an
  infinity, the subnormal numbers and \<open>NaN\<close> are left out. The arguments of these
  functions are meant to be doubles already (prices, configuration values).
\<close>

text \<open>\<open>ilog2 x\<close> is the integer part of the binary logarithm of a positive \<open>x\<close>.\<close>

definition ilog2 :: "real \<Rightarrow> int" where
  "ilog2 x = (if 1 \<le> x then bitlen \<lfloor>x\<rfloor> - 1 else - bitlen (\<lceil>1 / x\<rceil> - 1))"

definition pow2 :: "int \<Rightarrow> real" where
  "pow2 e = (if 0 \<le> e then 2 ^ nat e else 1 / 2 ^ nat (- e))"

definition roundEven :: "real \<Rightarrow> int" where
  "roundEven m =
     (let f = \<lfloor>m\<rfloor>; d = m - real_of_int f
      in if d < 1 / 2 then f else if 1 / 2 < d then f + 1
         else if even f then f else f + 1)"

definition dbl :: "real \<Rightarrow> real" where
  "dbl x =
     (if x = 0 then 0
      else let e = ilog2 \<bar>x\<bar> - 52
           in sgn x * (real_of_int (roundEven (\<bar>x\<bar> / pow2 e)) * pow2 e))"

definition fadd :: "real \<Rightarrow> real \<Rightarrow> real" where
  "fadd x y = dbl (x + y)"

definition fsub :: "real \<Rightarrow> real \<Rightarrow> real" where
  "fsub x y = dbl (x - y)"

definition fmul :: "real \<Rightarrow> real \<Rightarrow> real" where
  "fmul x y = dbl (x * y)"

definition fdiv :: "real \<Rightarrow> real \<Rightarrow> real" where
  "fdiv x y = dbl (x / y)"

text \<open>\<open>Math.sqrt\<close>, taken as the rounded square root.\<close>

definition fsqrt :: "real \<Rightarrow> real" where
  "fsqrt x = dbl (sqrt x)"

subsection \<open>Strategy functions\<close>

definition calcProfitPctD :: "real \<Rightarrow> real \<Rightarrow> zone \<Rightarrow> real" where
  "calcProfitPctD entryPrice' currentPrice sd =
     (let priceDiff = (if sd = Short then fsub entryPrice' currentPrice
                       else fsub currentPrice entryPrice')
      in fmul (fdiv priceDiff entryPrice') 100)"

definition checkTpZoneExitD ::
  "real \<Rightarrow> real \<Rightarrow> real \<Rightarrow> real \<Rightarrow> real \<Rightarrow> real \<Rightarrow> string option" where
  "checkTpZoneExitD currentPrice entryPrice' peak trailingStopPct hoursUntilShort hoursThreshold =
     (if currentPrice < entryPrice' then Some ''below-entry''
      else if fmul (fdiv (fsub peak currentPrice) peak) 100 \<ge> trailingStopPct
           then Some ''trailing-stop''
      else if hoursUntilShort \<le> hoursThreshold then Some ''time-exit''
      else None)"

definition getHoursUntilShortZoneD :: "int \<Rightarrow> config \<Rightarrow> real" where
  "getHoursUntilShortZoneD date cfg =
     (let etHour = getUTCHours date - 5;
          etMinute = getUTCMinutes date;
          dayOfWeek = getUTCDay date;
          targetMinutes = fadd (fmul (hour (shortZoneStart cfg)) 60) (minute (shortZoneStart cfg));
          currentMinutes = real_of_int (etHour * 60 + etMinute)
      in if dayOfWeek \<ge> 1 \<and> dayOfWeek \<le> 5 \<and> currentMinutes < targetMinutes
         then fdiv (fsub targetMinutes currentMinutes) 60
         else
           let daysUntil = skipWeekend 1 ((dayOfWeek + 1) mod 7);
               hoursToMidnight = fdiv (fsub (24 * 60) currentMinutes) 60;
               hoursAfterMidnight = fdiv targetMinutes 60
           in fadd (fadd hoursToMidnight (real_of_int ((daysUntil - 1) * 24)))
                hoursAfterMidnight)"

definition calcTradePnlD :: "real \<Rightarrow> real \<Rightarrow> zone \<Rightarrow> real \<Rightarrow> real" where
  "calcTradePnlD entryPrice' exitPrice' sd lev =
     (let pricePct = calcProfitPctD entryPrice' exitPrice' sd in fmul pricePct lev)"

definition calcTradingCostsD :: "real \<Rightarrow> real \<Rightarrow> zone \<Rightarrow> costConfig \<Rightarrow> costBreakdown" where
  "calcTradingCostsD notionalValue durHours sd cc =
     (let entryFeePct = fdiv (takerFeeBps cc) 100;
          exitFeePct = fdiv (takerFeeBps cc) 100;
          totalFeesPct = fadd entryFeePct exitFeePct;
          entrySlippagePct = fdiv (slippageBps cc) 100;
          exitSlippagePct = fdiv (slippageBps cc) 100;
          totalSlippagePct = fadd entrySlippagePct exitSlippagePct;
          periods = \<lfloor>fdiv durHours (fundingIntervalHours cc)\<rfloor>;
          fundingPerPeriodPct = fdiv (avgFundingRateBps cc) 100;
          fundingMultiplier = (if sd = Long then 1 else - 1);
          totalFundingPct = fmul (fmul (real_of_int periods) fundingPerPeriodPct) fundingMultiplier;
          total = fadd (fadd totalFeesPct totalSlippagePct) totalFundingPct
      in \<lparr>feesPct = totalFeesPct, slippagePct = totalSlippagePct,
          fundingPct = totalFundingPct, fundingPeriods = periods,
          totalCostPct = total, leveragedCostPct = 0\<rparr>)"

definition calcNetPnlD ::
  "real \<Rightarrow> real \<Rightarrow> zone \<Rightarrow> real \<Rightarrow> real \<Rightarrow> costConfig \<Rightarrow> real \<times> real \<times> costBreakdown" where
  "calcNetPnlD entryPrice' exitPrice' sd lev durHours cc =
     (let gross = calcTradePnlD entryPrice' exitPrice' sd lev;
          notionalValue = 1;
          breakdown = calcTradingCostsD notionalValue durHours sd cc;
          levCost = fmul (totalCostPct breakdown) lev;
          net = fsub gross levCost
      in (gross, net, breakdown\<lparr>leveragedCostPct := levCost\<rparr>))"

definition closeTradeD ::
  "position \<Rightarrow> real \<Rightarrow> int \<Rightarrow> string \<Rightarrow> config \<Rightarrow> costConfig \<Rightarrow> trade" where
  "closeTradeD p exitPrice' exitTime' reason cfg cc =
     (let durHours = fdiv (real_of_int (exitTime' - position.entryTime p)) (1000 * 60 * 60)
      in case calcNetPnlD (position.entryPrice p) exitPrice' (position.side p)
                (leverage cfg) durHours cc of
           (gross, net, costBreakdown) \<Rightarrow>
             \<lparr>entryTime = position.entryTime p, exitTime = exitTime',
              entryPrice = position.entryPrice p, exitPrice = exitPrice',
              side = position.side p, exitReason = reason,
              grossPnlPct = gross, netPnlPct = net,
              durationHours = durHours, costs = costBreakdown\<rparr>)"

subsection \<open>The backtest loop\<close>

definition recordTradeD :: "config \<Rightarrow> trade \<Rightarrow> state \<Rightarrow> state" where
  "recordTradeD cfg t st =
     st\<lparr>state.trades := state.trades st @ [t],
        equity := fadd (equity st) (trade.netPnlPct t),
        state.totalCosts :=
          \<lparr>fees = fadd (fees (state.totalCosts st)) (fmul (feesPct (trade.costs t)) (leverage cfg)),
           slippage = fadd (slippage (state.totalCosts st))
                        (fmul (slippagePct (trade.costs t)) (leverage cfg)),
           funding = fadd (funding (state.totalCosts st))
                       (fmul (fundingPct (trade.costs t)) (leverage cfg))\<rparr>\<rparr>"

definition zoneFlipD :: "config \<Rightarrow> costConfig \<Rightarrow> candle \<Rightarrow> zone \<Rightarrow> state \<Rightarrow> state" where
  "zoneFlipD cfg cc c currentZone st =
     (if previousZone st \<noteq> None \<and> Some currentZone \<noteq> previousZone st then
        let st1 = (case position st of
                     Some p \<Rightarrow>
                       (recordTradeD cfg
                          (closeTradeD p (price c) (timestamp c) ''zone-flip'' cfg cc) st)
                       \<lparr>position := None\<rparr>
                   | None \<Rightarrow> st)
        in st1\<lparr>position :=
                 Some \<lparr>position.side = currentZone, position.entryPrice = price c,
                       position.entryTime = timestamp c, inTpZone = False,
                       peakPrice = None\<rparr>\<rparr>
      else st)"

definition checkPositionD :: "config \<Rightarrow> costConfig \<Rightarrow> candle \<Rightarrow> state \<Rightarrow> state" where
  "checkPositionD cfg cc c st =
     (case position st of
        None \<Rightarrow> st
      | Some p \<Rightarrow>
          let profitPct = calcProfitPctD (position.entryPrice p) (price c) (position.side p);
              worstPrice = (if position.side p = Long then low c else high c);
              bestPrice = (if position.side p = Long then high c else low c);
              worstProfitPct = calcProfitPctD (position.entryPrice p) worstPrice (position.side p);
              bestProfitPct = calcProfitPctD (position.entryPrice p) bestPrice (position.side p)
          in
          if position.side p = Long \<and> inTpZone p then
            let p1 = (if high c > toNumber (peakPrice p)
                      then p\<lparr>peakPrice := Some (high c)\<rparr> else p);
                hoursUntilShort = getHoursUntilShortZoneD (timestamp c) cfg;
                exitCheck = checkTpZoneExitD (low c) (position.entryPrice p1)
                              (toNumber (peakPrice p1)) (tpZoneTrailingStopPct cfg)
                              hoursUntilShort (tpZoneHoursThreshold cfg)
            in case exitCheck of
                 Some reason \<Rightarrow>
                   let exitPrice' =
                         (if reason = ''trailing-stop''
                          then fmul (toNumber (peakPrice p1))
                                 (fsub 1 (fdiv (tpZoneTrailingStopPct cfg) 100))
                          else if reason = ''below-entry''
                          then fmul (position.entryPrice p1) (dbl (999 / 1000))
                          else price c)
                   in (recordTradeD cfg
                         (closeTradeD p1 exitPrice' (timestamp c) (''tp-'' @ reason) cfg cc) st)
                      \<lparr>position := None\<rparr>
               | None \<Rightarrow> st\<lparr>position := Some p1\<rparr>
          else if bestProfitPct \<ge> profitTargetPct cfg then
            let targetPrice =
                  (if position.side p = Long
                   then fmul (position.entryPrice p) (fadd 1 (fdiv (profitTargetPct cfg) 100))
                   else fmul (position.entryPrice p) (fsub 1 (fdiv (profitTargetPct cfg) 100)))
            in
            if position.side p = Long then
              let hoursUntilShort = getHoursUntilShortZoneD (timestamp c) cfg
              in if shouldEnterTpZone (position.side p) hoursUntilShort
                      (tpZoneHoursThreshold cfg)
                 then st\<lparr>position := Some (p\<lparr>inTpZone := True, peakPrice := Some bestPrice\<rparr>)\<rparr>
                 else (recordTradeD cfg
                         (closeTradeD p targetPrice (timestamp c) ''profit-target'' cfg cc) st)
                      \<lparr>position := None\<rparr>
            else (recordTradeD cfg
                    (closeTradeD p targetPrice (timestamp c) ''profit-target'' cfg cc) st)
                 \<lparr>position := None\<rparr>
          else st)"

definition trackDrawdownD :: "state \<Rightarrow> state" where
  "trackDrawdownD st =
     (let pk = (if equity st > peakEquity st then equity st else peakEquity st);
          drawdown = fmul (fdiv (fsub pk (equity st)) pk) 100
      in st\<lparr>peakEquity := pk,
            maxDrawdown := (if drawdown > maxDrawdown st then drawdown else maxDrawdown st)\<rparr>)"

definition stepD :: "config \<Rightarrow> costConfig \<Rightarrow> state \<Rightarrow> candle \<Rightarrow> state" where
  "stepD cfg cc st c =
     (let currentZone = getZone (timestamp c) cfg
      in (trackDrawdownD (checkPositionD cfg cc c (zoneFlipD cfg cc c currentZone st)))
         \<lparr>previousZone := Some currentZone\<rparr>)"

fun loopD :: "config \<Rightarrow> costConfig \<Rightarrow> state \<Rightarrow> candle list \<Rightarrow> state" where
  "loopD cfg cc st [] = st"
| "loopD cfg cc st (c # rest) = loopD cfg cc (stepD cfg cc st c) rest"

definition closeRemainingD :: "config \<Rightarrow> costConfig \<Rightarrow> candle list \<Rightarrow> state \<Rightarrow> state" where
  "closeRemainingD cfg cc priceData st =
     (case position st of
        Some p \<Rightarrow>
          if length priceData > 0 then
            let lastCandle = last priceData
            in recordTradeD cfg
                 (closeTradeD p (price lastCandle) (timestamp lastCandle)
                    ''backtest-end'' cfg cc) st
          else st
      | None \<Rightarrow> st)"

subsection \<open>Stats aggregator\<close>

fun addReasonD :: "trade \<Rightarrow> (string \<times> reasonStats) list \<Rightarrow> (string \<times> reasonStats) list" where
  "addReasonD t [] =
     [(exitReason t,
       \<lparr>reasonStats.count = 1, reasonStats.grossPnl = fadd 0 (trade.grossPnlPct t),
        reasonStats.netPnl = fadd 0 (trade.netPnlPct t)\<rparr>)]"
| "addReasonD t ((k, r) # rest) =
     (if k = exitReason t
      then (k, \<lparr>reasonStats.count = reasonStats.count r + 1,
                reasonStats.grossPnl = fadd (reasonStats.grossPnl r) (trade.grossPnlPct t),
                reasonStats.netPnl = fadd (reasonStats.netPnl r) (trade.netPnlPct t)\<rparr>) # rest
      else (k, r) # addReasonD t rest)"

definition sideStatsOfD :: "trade list \<Rightarrow> sideStats" where
  "sideStatsOfD ts =
     \<lparr>sideStats.count = length ts,
      sideStats.winRate =
        (if length ts > 0
         then fmul (fdiv (real (length (filter (\<lambda>t. trade.netPnlPct t > 0) ts)))
                      (real (length ts))) 100
         else 0),
      sideStats.grossPnl = foldl (\<lambda>a t. fadd a (trade.grossPnlPct t)) 0 ts,
      sideStats.netPnl = foldl (\<lambda>a t. fadd a (trade.netPnlPct t)) 0 ts\<rparr>"

text \<open>\<open>Math.pow(x, 2)\<close> is taken as the rounded product of \<open>x\<close> with itself.\<close>

definition calculateStatsD ::
  "trade list \<Rightarrow> real \<Rightarrow> real \<Rightarrow> config \<Rightarrow> costConfig \<Rightarrow> totalCosts \<Rightarrow> backtestResult" where
  "calculateStatsD ts finalEquity maxDd cfg cc tc =
     (let winning = filter (\<lambda>t. trade.netPnlPct t > 0) ts;
          losing = filter (\<lambda>t. trade.netPnlPct t \<le> 0) ts;
          longTrades = filter (\<lambda>t. trade.side t = Long) ts;
          shortTrades = filter (\<lambda>t. trade.side t = Short) ts;
          net = fsub finalEquity 100;
          gross = foldl (\<lambda>a t. fadd a (trade.grossPnlPct t)) 0 ts;
          returns = map trade.netPnlPct ts;
          avgReturn = (if length returns > 0
                       then fdiv (foldl (\<lambda>a b. fadd a b) 0 returns) (real (length returns))
                       else 0);
          stdDev = (if length returns > 1
                    then fsqrt (fdiv (foldl (\<lambda>sum r. fadd sum
                                               (fmul (fsub r avgReturn) (fsub r avgReturn)))
                                        0 returns)
                                  (real (length returns) - 1))
                    else 0);
          sharpe = (if stdDev > 0 then fmul (fdiv avgReturn stdDev) (fsqrt 252) else 0);
          byReason = foldl (\<lambda>acc t. addReasonD t acc) [] ts
      in \<lparr>trades = ts, grossPnlPct = gross, netPnlPct = net, totalPnlPct = net,
          winRate = (if length ts > 0
                     then fmul (fdiv (real (length winning)) (real (length ts))) 100 else 0),
          maxDrawdownPct = maxDd, sharpeRatio = sharpe,
          stats =
            \<lparr>totalTrades = length ts, winningTrades = length winning,
             losingTrades = length losing,
             avgWin = (if length winning > 0
                       then fdiv (foldl (\<lambda>a t. fadd a (trade.netPnlPct t)) 0 winning)
                              (real (length winning)) else 0),
             avgLoss = (if length losing > 0
                        then fdiv (foldl (\<lambda>a t. fadd a (trade.netPnlPct t)) 0 losing)
                               (real (length losing)) else 0),
             avgTradeDuration = (if length ts > 0
                                 then fdiv (foldl (\<lambda>a t. fadd a (durationHours t)) 0 ts)
                                        (real (length ts)) else 0),
             longStats = sideStatsOfD longTrades,
             shortStats = sideStatsOfD shortTrades,
             byExitReason = byReason, totalCosts = tc, costs = cc, config = cfg\<rparr>\<rparr>)"

definition runBacktestD :: "candle list \<Rightarrow> config \<Rightarrow> costConfig \<Rightarrow> backtestResult" where
  "runBacktestD priceData cfg cc =
     (let st = closeRemainingD cfg cc priceData (loopD cfg cc initState priceData)
      in calculateStatsD (state.trades st) (equity st) (maxDrawdown st) cfg cc
           (state.totalCosts st))"

section \<open>The specification's own formulations\<close>

text \<open>
  The hours until the short zone as the specification words them: the next weekday is
  found by skipping Saturday and Sunday.
\<close>

definition isWeekday :: "int \<Rightarrow> bool" where
  "isWeekday dow \<longleftrightarrow> dow mod 7 \<noteq> 0 \<and> dow mod 7 \<noteq> 6"

definition daysToNextWeekday :: "int \<Rightarrow> int" where
  "daysToNextWeekday dow =
     (if isWeekday (dow + 1) then 1 else if isWeekday (dow + 2) then 2 else 3)"

definition hoursUntilShortZoneSpec :: "int \<Rightarrow> config \<Rightarrow> real" where
  "hoursUntilShortZoneSpec date cfg =
     (let dow = getUTCDay date;
          localMinutes = real_of_int ((getUTCHours date - 5) * 60 + getUTCMinutes date);
          startMinutes = hour (shortZoneStart cfg) * 60 + minute (shortZoneStart cfg)
      in if isWeekday dow \<and> localMinutes < startMinutes
         then (startMinutes - localMinutes) / 60
         else (24 * 60 - localMinutes) / 60
              + 24 * real_of_int (daysToNextWeekday dow - 1)
              + startMinutes / 60)"

text \<open>The price move in the trade's favour, in percent, and the cost of a round trip.\<close>

definition pricePct :: "real \<Rightarrow> real \<Rightarrow> zone \<Rightarrow> real" where
  "pricePct entry exit sd =
     (if sd = Long then (exit - entry) / entry * 100 else (entry - exit) / entry * 100)"

definition totalCostPctSpec :: "costConfig \<Rightarrow> real \<Rightarrow> zone \<Rightarrow> real" where
  "totalCostPctSpec cc durHours sd =
     2 * takerFeeBps cc / 100 + 2 * slippageBps cc / 100
     + real_of_int \<lfloor>durHours / fundingIntervalHours cc\<rfloor> * (avgFundingRateBps cc / 100)
       * (if sd = Long then 1 else - 1)"

text \<open>
  What closing the position \<open>p\<close> at the time \<open>tm\<close>, for the reason \<open>reason\<close> and at the
  price \<open>px\<close>, makes of the state \<open>st\<close>: no position is left, one trade is appended to
  the log, with these fields, and its net PnL is added to the equity.
\<close>

definition closedWith ::
  "config \<Rightarrow> costConfig \<Rightarrow> state \<Rightarrow> state \<Rightarrow> position \<Rightarrow> int \<Rightarrow> string \<Rightarrow> real \<Rightarrow> bool" where
  "closedWith cfg cc st st' p tm reason px \<longleftrightarrow>
     position st' = None \<and>
     length (state.trades st') = length (state.trades st) + 1 \<and>
     butlast (state.trades st') = state.trades st \<and>
     exitReason (last (state.trades st')) = reason \<and>
     exitPrice (last (state.trades st')) = px \<and>
     exitTime (last (state.trades st')) = tm \<and>
     trade.entryPrice (last (state.trades st')) = position.entryPrice p \<and>
     trade.entryTime (last (state.trades st')) = position.entryTime p \<and>
     trade.side (last (state.trades st')) = position.side p \<and>
     durationHours (last (state.trades st')) =
       real_of_int (tm - position.entryTime p) / 3600000 \<and>
     trade.grossPnlPct (last (state.trades st')) =
       pricePct (position.entryPrice p) px (position.side p) * leverage cfg \<and>
     trade.netPnlPct (last (state.trades st')) =
       trade.grossPnlPct (last (state.trades st'))
       - leverage cfg
         * totalCostPctSpec cc (durationHours (last (state.trades st'))) (position.side p) \<and>
     equity st' = equity st + trade.netPnlPct (last (state.trades st')) \<and>
     previousZone st' = previousZone st \<and>
     peakEquity st' = peakEquity st \<and>
     maxDrawdown st' = maxDrawdown st"

text \<open>Sample mean, sample standard deviation (divisor N - 1) and the Sharpe ratio.\<close>

definition mean :: "real list \<Rightarrow> real" where
  "mean rs = (if rs = [] then 0 else sum_list rs / real (length rs))"

definition sampleStdDev :: "real list \<Rightarrow> real" where
  "sampleStdDev rs =
     (if length rs < 2 then 0
      else sqrt (sum_list (map (\<lambda>r. (r - mean rs) ^ 2) rs) / (real (length rs) - 1)))"

definition sharpeSpec :: "real list \<Rightarrow> real" where
  "sharpeSpec rs =
     (if length rs < 2 \<or> sampleStdDev rs = 0 then 0
      else mean rs / sampleStdDev rs * sqrt 252)"

text \<open>
  The same three over doubles: the returns are added from the left, starting from 0, and
  every operation is rounded.
\<close>

definition meanD :: "real list \<Rightarrow> real" where
  "meanD rs = (if rs = [] then 0 else fdiv (foldl fadd 0 rs) (real (length rs)))"

definition sampleStdDevD :: "real list \<Rightarrow> real" where
  "sampleStdDevD rs =
     (if length rs < 2 then 0
      else fsqrt (fdiv (foldl (\<lambda>s r. fadd s (fmul (fsub r (meanD rs)) (fsub r (meanD rs)))) 0 rs)
                   (real (length rs) - 1)))"

definition sharpeSpecD :: "real list \<Rightarrow> real" where
  "sharpeSpecD rs =
     (if length rs < 2 \<or> sampleStdDevD rs = 0 then 0
      else fmul (fdiv (meanD rs) (sampleStdDevD rs)) (fsqrt 252))"

text \<open>
  The exact results \<open>a + t\<close> of the additions that \<open>foldl fadd a ts\<close> rounds, one for
  each element of \<open>ts\<close>.
\<close>

fun additions :: "real \<Rightarrow> real list \<Rightarrow> real list" where
  "additions a [] = []"
| "additions a (t # ts) = (a + t) # additions (fadd a t) ts"

text \<open>
  The maximal drawdown when it is recomputed after every trade closure: each closure
  adds the trade's net PnL to the equity, the peak is the running maximum of the equity,
  and the drawdown is \<open>(peak - equity) / peak * 100\<close>.
\<close>

fun closureDrawdown :: "real \<Rightarrow> real \<Rightarrow> real \<Rightarrow> real list \<Rightarrow> real" where
  "closureDrawdown eq pk md [] = md"
| "closureDrawdown eq pk md (x # xs) =
     (let eq' = eq + x;
          pk' = max pk eq';
          dd = (pk' - eq') / pk' * 100
      in closureDrawdown eq' pk' (max md dd) xs)"

definition maxDrawdownSpec :: "trade list \<Rightarrow> real" where
  "maxDrawdownSpec ts = closureDrawdown 100 100 0 (map trade.netPnlPct ts)"

section \<open>Invariants of the loop\<close>

text \<open>The equity is 100 plus the net PnL of the trades recorded so far.\<close>

definition equityInv :: "state \<Rightarrow> bool" where
  "equityInv st \<longleftrightarrow> equity st = 100 + sum_list (map trade.netPnlPct (state.trades st))"

text \<open>Over doubles: 100 with the net PnL of the trades added one by one, each sum rounded.\<close>

definition equityInvD :: "state \<Rightarrow> bool" where
  "equityInvD st \<longleftrightarrow> equity st = foldl fadd 100 (map trade.netPnlPct (state.trades st))"

text \<open>No recorded trade and no open position was entered at the time \<open>ts0\<close>.\<close>

definition noEntryAt :: "int \<Rightarrow> state \<Rightarrow> bool" where
  "noEntryAt ts0 st \<longleftrightarrow>
     (\<forall>t \<in> set (state.trades st). trade.entryTime t \<noteq> ts0) \<and>
     (case position st of None \<Rightarrow> True | Some p \<Rightarrow> position.entryTime p \<noteq> ts0)"

text \<open>A position in the take-profit zone is a long with a recorded peak.\<close>

definition tpZoneInv :: "state \<Rightarrow> bool" where
  "tpZoneInv st \<longleftrightarrow>
     (case position st of
        None \<Rightarrow> True
      | Some p \<Rightarrow> \<not> inTpZone p \<or> (position.side p = Long \<and> peakPrice p \<noteq> None))"

section \<open>Sample candles and positions\<close>

definition mkCandle :: "int \<Rightarrow> real \<Rightarrow> real \<Rightarrow> real \<Rightarrow> candle" where
  "mkCandle ts p h l = \<lparr>timestamp = ts, price = p, high = h, low = l\<rparr>"

definition mkPosition :: "zone \<Rightarrow> real \<Rightarrow> int \<Rightarrow> bool \<Rightarrow> real option \<Rightarrow> position" where
  "mkPosition sd ep et tp pk =
     \<lparr>position.side = sd, position.entryPrice = ep, position.entryTime = et,
      inTpZone = tp, peakPrice = pk\<rparr>"

definition holding :: "position \<Rightarrow> state" where
  "holding p = initState\<lparr>position := Some p\<rparr>"

text \<open>
  Five-minute candles of Monday 1 December 2025: 09:20, 09:25 (long zone), 09:30 and
  09:35 (short zone) local time.
\<close>

definition quietRun :: "candle list" where
  "quietRun = [mkCandle 1764598800000 100 100 100, mkCandle 1764599100000 101 102 100]"

definition flipOnlyRun :: "candle list" where
  "flipOnlyRun = [mkCandle 1764599100000 100 100 100, mkCandle 1764599400000 100 100 100]"

definition shortRun :: "candle list" where
  "shortRun = flipOnlyRun @ [mkCandle 1764599700000 99 99 98]"

text \<open>The first candle of \<open>flipOnlyRun\<close> once more after its second: out of order.\<close>

definition unsortedRun :: "candle list" where
  "unsortedRun = flipOnlyRun @ [mkCandle 1764599100000 100 100 100]"

text \<open>Monday 15:55 (short zone), Monday 16:05 (long zone), Tuesday 09:30 (short zone).\<close>

definition doubleCloseRun :: "candle list" where
  "doubleCloseRun =
     [mkCandle 1764622500000 100 100 100, mkCandle 1764623100000 100 100 100,
      mkCandle 1764685800000 99 99 97]"

text \<open>
  Monday 15:55 (short zone), Monday 16:05 (long zone), Tuesday 04:00 (long zone, 5 hours
  29 minutes before the short zone) with a high of 102.
\<close>

definition targetRun :: "candle list" where
  "targetRun =
     [mkCandle 1764622500000 100 100 100, mkCandle 1764623100000 100 100 100,
      mkCandle 1764666000000 101 102 100]"

text \<open>
  Monday 09:25 (long zone), 09:30 (short zone), 16:05 (long zone) and Tuesday 09:30 (short
  zone), the price at 100 throughout; leverage 1 and a funding rate of 0 (the options
  \<open>--leverage 1 --funding 0\<close> of the command line).
\<close>

definition flatRun :: "candle list" where
  "flatRun =
     [mkCandle 1764599100000 100 100 100, mkCandle 1764599400000 100 100 100,
      mkCandle 1764623100000 100 100 100, mkCandle 1764685800000 100 100 100]"

definition unleveraged :: config where
  "unleveraged = DEFAULT_CONFIG\<lparr>leverage := 1\<rparr>"

definition noFunding :: costConfig where
  "noFunding = DEFAULT_COSTS\<lparr>avgFundingRateBps := 0\<rparr>"

section \<open>Properties\<close>

subsection \<open>Zone classifier\<close>

lemma getUTCDay_range: "0 \<le> getUTCDay d \<and> getUTCDay d < 7"
  by (simp add: getUTCDay_def)

text \<open>The three calls of \<open>src/backtest/test-local.js\<close> and the values it expects.\<close>

lemma getZone_monday_morning: "getZone 1764601200000 DEFAULT_CONFIG = Short"
  by code_simp

lemma getZone_monday_evening: "getZone 1764626400000 DEFAULT_CONFIG = Long"
  by code_simp

lemma getZone_saturday: "getZone 1765033200000 DEFAULT_CONFIG = Long"
  by code_simp

text \<open>
  C5. On a Saturday or a Sunday (the day of the week \<open>getUTCDay\<close> reads), and on a
  date of the holiday set (the date \<open>toISOString\<close> prints), \<open>getZone\<close> answers long,
  whatever the time of day and whatever the configured window.
\<close>

theorem getZone_weekend_holiday:
  "getUTCDay d = 0 \<or> getUTCDay d = 6 \<or> isoDate d \<in> set HOLIDAYS \<Longrightarrow> getZone d cfg = Long"
  by (elim disjE) (simp_all add: getZone_def Let_def)

text \<open>
  Saturday 6 December 2025 and Thursday 25 December 2025, both at 15:00 UTC, a time of
  day inside the default short window.
\<close>

theorem getZone_weekend_holiday_witness:
  "getUTCDay 1765033200000 = 6 \<and> getZone 1765033200000 DEFAULT_CONFIG = Long \<and>
   isoDate 1766674800000 \<in> set HOLIDAYS \<and> getZone 1766674800000 DEFAULT_CONFIG = Long"
proof -
  have a: "getUTCDay 1765033200000 = 6" by code_simp
  have b: "isoDate 1766674800000 \<in> set HOLIDAYS" by code_simp
  show ?thesis
    using a b getZone_weekend_holiday [of 1765033200000 DEFAULT_CONFIG]
      getZone_weekend_holiday [of 1766674800000 DEFAULT_CONFIG]
    by simp
qed

text \<open>
  The day and the date read by \<open>getZone\<close> are those of UTC. Read in local time (UTC
  less five hours) the statement holds as well, for a window that starts at a
  non-negative hour: in the five hours where the two days differ the local hour of
  \<open>getZone\<close> is negative.
\<close>

lemma utc_day_of_local:
  assumes "5 \<le> getUTCHours d"
  shows "(d - 18000000) div 86400000 = d div 86400000"
proof -
  define h where "h = d div 3600000"
  have a: "d div 86400000 = h div 24"
    unfolding h_def using zdiv_zmult2_eq [of 24 d 3600000] by simp
  have "(d - 18000000) div 3600000 = h - 5"
    unfolding h_def using div_mult_self1 [of 3600000 d "- 5"] by simp
  then have b: "(d - 18000000) div 86400000 = (h - 5) div 24"
    using zdiv_zmult2_eq [of 24 "d - 18000000" 3600000] by simp
  from assms have r: "5 \<le> h mod 24" by (simp add: getUTCHours_def h_def)
  have "h - 5 = 24 * (h div 24) + (h mod 24 - 5)" by simp
  moreover have "0 \<le> h mod 24 - 5" using r by simp
  moreover have "h mod 24 - 5 < 24"
    using pos_mod_bound [of 24 h] by simp
  ultimately have "(h - 5) div 24 = h div 24"
    by (rule int_div_pos_eq)
  with a b show ?thesis by simp
qed

lemma getZone_local_weekend_holiday:
  assumes "0 \<le> hour (shortZoneStart cfg)"
    and "getUTCDay (d - 18000000) = 0 \<or> getUTCDay (d - 18000000) = 6 \<or>
         isoDate (d - 18000000) \<in> set HOLIDAYS"
  shows "getZone d cfg = Long"
proof (cases "5 \<le> getUTCHours d")
  case True
  have "getUTCDay (d - 18000000) = getUTCDay d"
    by (simp only: getUTCDay_def utc_day_of_local [OF True])
  moreover have "isoDate (d - 18000000) = isoDate d"
    by (simp only: isoDate_def utc_day_of_local [OF True])
  ultimately have "getUTCDay d = 0 \<or> getUTCDay d = 6 \<or> isoDate d \<in> set HOLIDAYS"
    using assms(2) by simp
  then show ?thesis
    by (elim disjE) (simp_all add: getZone_def Let_def)
next
  case False
  then have "real_of_int (getUTCHours d - 5) < 0" by simp
  with assms(1) have "\<not> real_of_int (getUTCHours d - 5) > hour (shortZoneStart cfg)"
    and "real_of_int (getUTCHours d - 5) \<noteq> hour (shortZoneStart cfg)"
    by linarith+
  then show ?thesis
    by (simp add: getZone_def Let_def)
qed

subsection \<open>Hours until the short zone\<close>

lemma skipWeekend_weekday: "n \<noteq> 0 \<Longrightarrow> n \<noteq> 6 \<Longrightarrow> skipWeekend k n = k"
  by (subst skipWeekend.simps) simp

lemma skipWeekend_0: "skipWeekend k 0 = k + 1"
  by (subst skipWeekend.simps) (simp add: skipWeekend_weekday)

lemma skipWeekend_6: "skipWeekend k 6 = k + 2"
  by (subst skipWeekend.simps) (simp add: skipWeekend_0)

lemma dow_cases:
  assumes "0 \<le> dow" "dow < (7::int)"
  shows "dow = 0 \<or> dow = 1 \<or> dow = 2 \<or> dow = 3 \<or> dow = 4 \<or> dow = 5 \<or> dow = 6"
  using assms by arith

lemma skipWeekend_next:
  assumes "0 \<le> dow" "dow < 7"
  shows "skipWeekend 1 ((dow + 1) mod 7) = daysToNextWeekday dow"
  using dow_cases [OF assms]
  by (elim disjE)
     (simp_all add: daysToNextWeekday_def isWeekday_def skipWeekend_weekday
        skipWeekend_0 skipWeekend_6)

lemma isWeekday_range:
  assumes "0 \<le> dow" "dow < 7"
  shows "isWeekday dow \<longleftrightarrow> 1 \<le> dow \<and> dow \<le> 5"
  using dow_cases [OF assms] by (elim disjE) (simp_all add: isWeekday_def)

text \<open>\<open>daysToNextWeekday\<close> is the number of days to the first weekday that follows.\<close>

lemma daysToNextWeekday_least:
  "1 \<le> daysToNextWeekday dow \<and> isWeekday (dow + daysToNextWeekday dow) \<and>
   (\<forall>k. 1 \<le> k \<and> k < daysToNextWeekday dow \<longrightarrow> \<not> isWeekday (dow + k))"
proof -
  have m: "0 \<le> dow mod 7" "dow mod 7 < 7" by simp_all
  have e: "\<And>k. (dow + k) mod 7 = (dow mod 7 + k) mod 7" by (simp add: mod_add_left_eq)
  have k1: "\<And>k::int. 1 \<le> k \<Longrightarrow> k < 2 \<Longrightarrow> k = 1" by arith
  have k2: "\<And>k::int. 1 \<le> k \<Longrightarrow> k < 3 \<Longrightarrow> k = 1 \<or> k = 2" by arith
  from dow_cases [OF m] show ?thesis
    unfolding daysToNextWeekday_def isWeekday_def e
    by (elim disjE) (auto dest: k1 k2)
qed

text \<open>
  C6. On a weekday before the start of the short zone, \<open>getHoursUntilShortZone\<close> is the
  gap in hours to that start on the same day; otherwise it is the hours to midnight, plus
  24 hours for each whole day between today and the next weekday, plus the hours from
  midnight to the start of the short zone.
\<close>

theorem getHoursUntilShortZone_spec:
  "getHoursUntilShortZone date cfg = hoursUntilShortZoneSpec date cfg"
proof -
  have r: "0 \<le> getUTCDay date" "getUTCDay date < 7"
    using getUTCDay_range by simp_all
  show ?thesis
    unfolding getHoursUntilShortZone_def hoursUntilShortZoneSpec_def Let_def
      skipWeekend_next [OF r] isWeekday_range [OF r]
    by simp
qed

text \<open>Monday 10:00 local: 23 hours 29 minutes. Friday 17:00 local: 64 hours 29 minutes.\<close>

lemma getHoursUntilShortZone_examples:
  "getHoursUntilShortZone 1764601200000 DEFAULT_CONFIG = 1409 / 60"
  "getHoursUntilShortZone 1764972000000 DEFAULT_CONFIG = 3869 / 60"
  by code_simp+

subsection \<open>The position state machine\<close>

lemma closeTrade_fields:
  "exitReason (closeTrade p x tm r cfg cc) = r"
  "exitPrice (closeTrade p x tm r cfg cc) = x"
  "exitTime (closeTrade p x tm r cfg cc) = tm"
  "trade.entryPrice (closeTrade p x tm r cfg cc) = position.entryPrice p"
  "trade.entryTime (closeTrade p x tm r cfg cc) = position.entryTime p"
  "trade.side (closeTrade p x tm r cfg cc) = position.side p"
  by (simp_all add: closeTrade_def calcNetPnl_def Let_def)

lemma recordTrade_fields:
  "state.trades (recordTrade cfg t st) = state.trades st @ [t]"
  "equity (recordTrade cfg t st) = equity st + trade.netPnlPct t"
  "position (recordTrade cfg t st) = position st"
  "previousZone (recordTrade cfg t st) = previousZone st"
  "peakEquity (recordTrade cfg t st) = peakEquity st"
  "maxDrawdown (recordTrade cfg t st) = maxDrawdown st"
  by (simp_all add: recordTrade_def)

lemma closeTrade_durationHours:
  "durationHours (closeTrade p x tm r cfg cc) =
     real_of_int (tm - position.entryTime p) / 3600000"
  by (simp add: closeTrade_def calcNetPnl_def Let_def)

lemma closeTrade_pnl:
  "trade.grossPnlPct (closeTrade p x tm r cfg cc) =
     pricePct (position.entryPrice p) x (position.side p) * leverage cfg"
  "trade.netPnlPct (closeTrade p x tm r cfg cc) =
     trade.grossPnlPct (closeTrade p x tm r cfg cc)
     - leverage cfg
       * totalCostPctSpec cc (durationHours (closeTrade p x tm r cfg cc)) (position.side p)"
  by (cases "position.side p";
      simp add: closeTrade_def calcNetPnl_def calcTradePnl_def calcProfitPct_def
        calcTradingCosts_def Let_def pricePct_def totalCostPctSpec_def)+

text \<open>Recording the trade that \<open>closeTrade\<close> builds and dropping the position closes it.\<close>

lemma closedWith_recordTrade:
  assumes "position.entryPrice q = position.entryPrice p"
    "position.entryTime q = position.entryTime p" "position.side q = position.side p"
  shows "closedWith cfg cc st
           ((recordTrade cfg (closeTrade q px tm reason cfg cc) st)\<lparr>position := None\<rparr>)
           p tm reason px"
  unfolding closedWith_def
  by (simp add: recordTrade_fields closeTrade_fields closeTrade_durationHours
      closeTrade_pnl assms)

text \<open>The three branches of lines 589 to 620 as equations on the state.\<close>

lemma profit_target_step_eq:
  assumes "position st = Some p" and "\<not> inTpZone p"
    and "calcProfitPct (position.entryPrice p)
           (if position.side p = Long then high c else low c) (position.side p)
         \<ge> profitTargetPct cfg"
  shows
    "(position.side p = Short \<longrightarrow>
        checkPosition cfg cc c st =
          (recordTrade cfg
             (closeTrade p (position.entryPrice p * (1 - profitTargetPct cfg / 100))
                (timestamp c) ''profit-target'' cfg cc) st)\<lparr>position := None\<rparr>) \<and>
     (position.side p = Long \<and>
        getHoursUntilShortZone (timestamp c) cfg > tpZoneHoursThreshold cfg \<longrightarrow>
        checkPosition cfg cc c st =
          st\<lparr>position := Some (p\<lparr>inTpZone := True, peakPrice := Some (high c)\<rparr>)\<rparr>) \<and>
     (position.side p = Long \<and>
        \<not> getHoursUntilShortZone (timestamp c) cfg > tpZoneHoursThreshold cfg \<longrightarrow>
        checkPosition cfg cc c st =
          (recordTrade cfg
             (closeTrade p (position.entryPrice p * (1 + profitTargetPct cfg / 100))
                (timestamp c) ''profit-target'' cfg cc) st)\<lparr>position := None\<rparr>)"
proof (cases "position.side p")
  case Long
  with assms show ?thesis
    by (simp add: checkPosition_def Let_def shouldEnterTpZone_def)
next
  case Short
  with assms show ?thesis
    by (simp add: checkPosition_def Let_def)
qed

text \<open>
  C1. The profit-target evaluation: a position is open and not in the take-profit zone,
  and the best price of the candle (the high for a long, the low for a short) reaches
  the profit target. A short is closed at once, reason \<open>profit-target\<close>, at
  \<open>entryPrice * (1 - profitTargetPct / 100)\<close>. A long with more hours to the short zone
  than the threshold enters the take-profit zone with the candle's high as peak, and no
  trade is recorded; any other long is closed at once, reason \<open>profit-target\<close>, at
  \<open>entryPrice * (1 + profitTargetPct / 100)\<close>.
\<close>

theorem profit_target_step:
  assumes "position st = Some p" and "\<not> inTpZone p"
    and "calcProfitPct (position.entryPrice p)
           (if position.side p = Long then high c else low c) (position.side p)
         \<ge> profitTargetPct cfg"
  shows
    "(position.side p = Short \<longrightarrow>
        closedWith cfg cc st (checkPosition cfg cc c st) p (timestamp c) ''profit-target''
          (position.entryPrice p * (1 - profitTargetPct cfg / 100))) \<and>
     (position.side p = Long \<and>
        getHoursUntilShortZone (timestamp c) cfg > tpZoneHoursThreshold cfg \<longrightarrow>
        checkPosition cfg cc c st =
          st\<lparr>position := Some (p\<lparr>inTpZone := True, peakPrice := Some (high c)\<rparr>)\<rparr> \<and>
        state.trades (checkPosition cfg cc c st) = state.trades st \<and>
        equity (checkPosition cfg cc c st) = equity st) \<and>
     (position.side p = Long \<and>
        \<not> getHoursUntilShortZone (timestamp c) cfg > tpZoneHoursThreshold cfg \<longrightarrow>
        closedWith cfg cc st (checkPosition cfg cc c st) p (timestamp c) ''profit-target''
          (position.entryPrice p * (1 + profitTargetPct cfg / 100)))"
  using profit_target_step_eq [OF assms, of cc]
    closedWith_recordTrade [of p p cfg cc st _ "timestamp c" "''profit-target''"]
  by auto

text \<open>Monday 16:10 local and Tuesday 04:00 local, 1 and 2 December 2025.\<close>

lemma hours_mon_1610: "getHoursUntilShortZone 1764623400000 DEFAULT_CONFIG = 1039 / 60"
  by code_simp

lemma hours_tue_0400: "getHoursUntilShortZone 1764666000000 DEFAULT_CONFIG = 329 / 60"
  by code_simp

text \<open>
  A short entered at 100 with a low of 98; a long entered at 100 with a high of 102, once
  more than six hours before the short zone and once less.
\<close>

theorem profit_target_step_witness:
  "closedWith DEFAULT_CONFIG DEFAULT_COSTS
     (holding (mkPosition Short 100 1764601200000 False None))
     (checkPosition DEFAULT_CONFIG DEFAULT_COSTS (mkCandle 1764601500000 99 99 98)
        (holding (mkPosition Short 100 1764601200000 False None)))
     (mkPosition Short 100 1764601200000 False None) 1764601500000 ''profit-target'' 99 \<and>
   map exitReason (state.trades
     (checkPosition DEFAULT_CONFIG DEFAULT_COSTS (mkCandle 1764601500000 99 99 98)
        (holding (mkPosition Short 100 1764601200000 False None)))) = [''profit-target''] \<and>
   map exitPrice (state.trades
     (checkPosition DEFAULT_CONFIG DEFAULT_COSTS (mkCandle 1764601500000 99 99 98)
        (holding (mkPosition Short 100 1764601200000 False None)))) = [99] \<and>
   equity
     (checkPosition DEFAULT_CONFIG DEFAULT_COSTS (mkCandle 1764601500000 99 99 98)
        (holding (mkPosition Short 100 1764601200000 False None))) = 108 \<and>
   checkPosition DEFAULT_CONFIG DEFAULT_COSTS (mkCandle 1764623400000 101 102 100)
      (holding (mkPosition Long 100 1764623100000 False None)) =
    holding (mkPosition Long 100 1764623100000 True (Some 102)) \<and>
   state.trades
     (checkPosition DEFAULT_CONFIG DEFAULT_COSTS (mkCandle 1764623400000 101 102 100)
        (holding (mkPosition Long 100 1764623100000 False None))) = [] \<and>
   closedWith DEFAULT_CONFIG DEFAULT_COSTS
     (holding (mkPosition Long 100 1764623100000 False None))
     (checkPosition DEFAULT_CONFIG DEFAULT_COSTS (mkCandle 1764666000000 101 102 100)
        (holding (mkPosition Long 100 1764623100000 False None)))
     (mkPosition Long 100 1764623100000 False None) 1764666000000 ''profit-target'' 101 \<and>
   map exitReason (state.trades
     (checkPosition DEFAULT_CONFIG DEFAULT_COSTS (mkCandle 1764666000000 101 102 100)
        (holding (mkPosition Long 100 1764623100000 False None)))) = [''profit-target''] \<and>
   map exitPrice (state.trades
     (checkPosition DEFAULT_CONFIG DEFAULT_COSTS (mkCandle 1764666000000 101 102 100)
        (holding (mkPosition Long 100 1764623100000 False None)))) = [101] \<and>
   equity
     (checkPosition DEFAULT_CONFIG DEFAULT_COSTS (mkCandle 1764666000000 101 102 100)
        (holding (mkPosition Long 100 1764623100000 False None))) = 1079 / 10"
proof -
  let ?s = "mkPosition Short 100 1764601200000 False None"
  let ?l = "mkPosition Long 100 1764623100000 False None"
  have s1: "position (holding ?s) = Some ?s" and l1: "position (holding ?l) = Some ?l"
    by (simp_all add: holding_def)
  have s2: "\<not> inTpZone ?s" and l2: "\<not> inTpZone ?l"
    by (simp_all add: mkPosition_def)
  have s3: "calcProfitPct (position.entryPrice ?s)
              (if position.side ?s = Long then high (mkCandle 1764601500000 99 99 98)
               else low (mkCandle 1764601500000 99 99 98)) (position.side ?s)
            \<ge> profitTargetPct DEFAULT_CONFIG"
    by (simp add: mkPosition_def mkCandle_def calcProfitPct_def DEFAULT_CONFIG_def)
  have l3: "calcProfitPct (position.entryPrice ?l)
              (if position.side ?l = Long then high (mkCandle ts 101 102 100)
               else low (mkCandle ts 101 102 100)) (position.side ?l)
            \<ge> profitTargetPct DEFAULT_CONFIG" for ts
    by (simp add: mkPosition_def mkCandle_def calcProfitPct_def DEFAULT_CONFIG_def)
  have thr: "tpZoneHoursThreshold DEFAULT_CONFIG = 6" "profitTargetPct DEFAULT_CONFIG = 1"
    by (simp_all add: DEFAULT_CONFIG_def)
  have sel: "position.side ?s = Short" "position.side ?l = Long"
    "position.entryPrice ?s = 100" "position.entryPrice ?l = 100"
    "timestamp (mkCandle ts p h l) = ts" "high (mkCandle ts p h l) = h" for ts p h l
    by (simp_all add: mkPosition_def mkCandle_def)
  have upd: "(holding ?l)\<lparr>position := Some (?l\<lparr>inTpZone := True, peakPrice := Some 102\<rparr>)\<rparr>
             = holding (mkPosition Long 100 1764623100000 True (Some 102))"
    "state.trades (holding q) = []" for q
    by (simp_all add: holding_def mkPosition_def initState_def)
  have ev: "map exitReason (state.trades
       (checkPosition DEFAULT_CONFIG DEFAULT_COSTS (mkCandle 1764601500000 99 99 98)
          (holding ?s))) = [''profit-target'']"
    "map exitPrice (state.trades
       (checkPosition DEFAULT_CONFIG DEFAULT_COSTS (mkCandle 1764601500000 99 99 98)
          (holding ?s))) = [99]"
    "equity (checkPosition DEFAULT_CONFIG DEFAULT_COSTS (mkCandle 1764601500000 99 99 98)
          (holding ?s)) = 108"
    "map exitReason (state.trades
       (checkPosition DEFAULT_CONFIG DEFAULT_COSTS (mkCandle 1764666000000 101 102 100)
          (holding ?l))) = [''profit-target'']"
    "map exitPrice (state.trades
       (checkPosition DEFAULT_CONFIG DEFAULT_COSTS (mkCandle 1764666000000 101 102 100)
          (holding ?l))) = [101]"
    "equity (checkPosition DEFAULT_CONFIG DEFAULT_COSTS (mkCandle 1764666000000 101 102 100)
          (holding ?l)) = 1079 / 10"
    by code_simp+
  show ?thesis
    using profit_target_step [OF s1 s2 s3, of DEFAULT_COSTS]
      profit_target_step [OF l1 l2 l3, of DEFAULT_COSTS 1764623400000]
      profit_target_step [OF l1 l2 l3, of DEFAULT_COSTS 1764666000000]
    by (simp add: sel thr hours_mon_1610 hours_tue_0400 upd ev)
qed

lemma toNumber_Some: "toNumber (Some x) = x"
  by (simp add: toNumber_def)

text \<open>The four branches of lines 554 to 587 as equations on the state.\<close>

lemma tp_zone_step_eq:
  assumes "position st = Some p" and "position.side p = Long" and "inTpZone p"
    and "peakPrice p = Some pk"
  shows
    "(low c < position.entryPrice p \<longrightarrow>
        checkPosition cfg cc c st =
          (recordTrade cfg
             (closeTrade (p\<lparr>peakPrice := Some (max pk (high c))\<rparr>)
                (position.entryPrice p * (999 / 1000)) (timestamp c)
                ''tp-below-entry'' cfg cc) st)\<lparr>position := None\<rparr>) \<and>
     (\<not> low c < position.entryPrice p \<and>
      (max pk (high c) - low c) / max pk (high c) * 100 \<ge> tpZoneTrailingStopPct cfg \<longrightarrow>
        checkPosition cfg cc c st =
          (recordTrade cfg
             (closeTrade (p\<lparr>peakPrice := Some (max pk (high c))\<rparr>)
                (max pk (high c) * (1 - tpZoneTrailingStopPct cfg / 100)) (timestamp c)
                ''tp-trailing-stop'' cfg cc) st)\<lparr>position := None\<rparr>) \<and>
     (\<not> low c < position.entryPrice p \<and>
      \<not> (max pk (high c) - low c) / max pk (high c) * 100 \<ge> tpZoneTrailingStopPct cfg \<and>
      getHoursUntilShortZone (timestamp c) cfg \<le> tpZoneHoursThreshold cfg \<longrightarrow>
        checkPosition cfg cc c st =
          (recordTrade cfg
             (closeTrade (p\<lparr>peakPrice := Some (max pk (high c))\<rparr>)
                (price c) (timestamp c) ''tp-time-exit'' cfg cc) st)\<lparr>position := None\<rparr>) \<and>
     (\<not> low c < position.entryPrice p \<and>
      \<not> (max pk (high c) - low c) / max pk (high c) * 100 \<ge> tpZoneTrailingStopPct cfg \<and>
      \<not> getHoursUntilShortZone (timestamp c) cfg \<le> tpZoneHoursThreshold cfg \<longrightarrow>
        checkPosition cfg cc c st =
          st\<lparr>position := Some (p\<lparr>peakPrice := Some (max pk (high c))\<rparr>)\<rparr>)"
proof -
  have pk: "(if high c > toNumber (peakPrice p) then p\<lparr>peakPrice := Some (high c)\<rparr> else p)
            = p\<lparr>peakPrice := Some (max pk (high c))\<rparr>"
    using assms(4) by (simp add: toNumber_def max_def)
  show ?thesis
    using assms(1-3)
    by (simp add: checkPosition_def Let_def pk checkTpZoneExit_def toNumber_Some)
qed

text \<open>
  C2. A candle met in the take-profit zone first raises the peak to
  \<open>max peakPrice high\<close>. Then the first of these closes the position: the low is
  under the entry price (reason \<open>tp-below-entry\<close>, at \<open>entryPrice * 0.999\<close>); the drop
  from the peak to the low, in percent of the peak, reaches the trailing stop
  (\<open>tp-trailing-stop\<close>, at \<open>peak * (1 - tpZoneTrailingStopPct / 100)\<close>); the hours to
  the short zone are at most the threshold (\<open>tp-time-exit\<close>, at the close price).
  When none holds the position stays open with the raised peak.
\<close>

theorem tp_zone_step:
  assumes "position st = Some p" and "position.side p = Long" and "inTpZone p"
    and "peakPrice p = Some pk"
  shows
    "(low c < position.entryPrice p \<longrightarrow>
        closedWith cfg cc st (checkPosition cfg cc c st) p (timestamp c) ''tp-below-entry''
          (position.entryPrice p * (999 / 1000))) \<and>
     (\<not> low c < position.entryPrice p \<and>
      (max pk (high c) - low c) / max pk (high c) * 100 \<ge> tpZoneTrailingStopPct cfg \<longrightarrow>
        closedWith cfg cc st (checkPosition cfg cc c st) p (timestamp c) ''tp-trailing-stop''
          (max pk (high c) * (1 - tpZoneTrailingStopPct cfg / 100))) \<and>
     (\<not> low c < position.entryPrice p \<and>
      \<not> (max pk (high c) - low c) / max pk (high c) * 100 \<ge> tpZoneTrailingStopPct cfg \<and>
      getHoursUntilShortZone (timestamp c) cfg \<le> tpZoneHoursThreshold cfg \<longrightarrow>
        closedWith cfg cc st (checkPosition cfg cc c st) p (timestamp c) ''tp-time-exit''
          (price c)) \<and>
     (\<not> low c < position.entryPrice p \<and>
      \<not> (max pk (high c) - low c) / max pk (high c) * 100 \<ge> tpZoneTrailingStopPct cfg \<and>
      \<not> getHoursUntilShortZone (timestamp c) cfg \<le> tpZoneHoursThreshold cfg \<longrightarrow>
        checkPosition cfg cc c st =
          st\<lparr>position := Some (p\<lparr>peakPrice := Some (max pk (high c))\<rparr>)\<rparr> \<and>
        state.trades (checkPosition cfg cc c st) = state.trades st \<and>
        equity (checkPosition cfg cc c st) = equity st)"
proof -
  have c: "closedWith cfg cc st
      ((recordTrade cfg
          (closeTrade (p\<lparr>peakPrice := Some (max pk (high c))\<rparr>) px (timestamp c) reason cfg cc)
          st)\<lparr>position := None\<rparr>)
      p (timestamp c) reason px" for reason px
    by (rule closedWith_recordTrade) simp_all
  show ?thesis
    using tp_zone_step_eq [OF assms, of c cfg cc] c
    by auto
qed

text \<open>
  A long entered at 100 whose peak is 102, met by four candles: a low of 99; a high of
  103 and a low of 102; a quiet candle less than six hours before the short zone; the
  same quiet candle earlier.
\<close>

theorem tp_zone_step_witness:
  "closedWith DEFAULT_CONFIG DEFAULT_COSTS
     (holding (mkPosition Long 100 1764623100000 True (Some 102)))
     (checkPosition DEFAULT_CONFIG DEFAULT_COSTS (mkCandle 1764623700000 100 101 99)
        (holding (mkPosition Long 100 1764623100000 True (Some 102))))
     (mkPosition Long 100 1764623100000 True (Some 102)) 1764623700000
     ''tp-below-entry'' (999 / 10) \<and>
   map exitReason (state.trades
     (checkPosition DEFAULT_CONFIG DEFAULT_COSTS (mkCandle 1764623700000 100 101 99)
        (holding (mkPosition Long 100 1764623100000 True (Some 102))))) = [''tp-below-entry''] \<and>
   map exitPrice (state.trades
     (checkPosition DEFAULT_CONFIG DEFAULT_COSTS (mkCandle 1764623700000 100 101 99)
        (holding (mkPosition Long 100 1764623100000 True (Some 102))))) = [999 / 10] \<and>
   closedWith DEFAULT_CONFIG DEFAULT_COSTS
     (holding (mkPosition Long 100 1764623100000 True (Some 102)))
     (checkPosition DEFAULT_CONFIG DEFAULT_COSTS (mkCandle 1764623700000 102 103 102)
        (holding (mkPosition Long 100 1764623100000 True (Some 102))))
     (mkPosition Long 100 1764623100000 True (Some 102)) 1764623700000
     ''tp-trailing-stop'' (20497 / 200) \<and>
   map exitReason (state.trades
     (checkPosition DEFAULT_CONFIG DEFAULT_COSTS (mkCandle 1764623700000 102 103 102)
        (holding (mkPosition Long 100 1764623100000 True (Some 102))))) = [''tp-trailing-stop''] \<and>
   map exitPrice (state.trades
     (checkPosition DEFAULT_CONFIG DEFAULT_COSTS (mkCandle 1764623700000 102 103 102)
        (holding (mkPosition Long 100 1764623100000 True (Some 102))))) = [20497 / 200] \<and>
   closedWith DEFAULT_CONFIG DEFAULT_COSTS
     (holding (mkPosition Long 100 1764623100000 True (Some 102)))
     (checkPosition DEFAULT_CONFIG DEFAULT_COSTS (mkCandle 1764666000000 102 102 (1019 / 10))
        (holding (mkPosition Long 100 1764623100000 True (Some 102))))
     (mkPosition Long 100 1764623100000 True (Some 102)) 1764666000000
     ''tp-time-exit'' 102 \<and>
   map exitReason (state.trades
     (checkPosition DEFAULT_CONFIG DEFAULT_COSTS (mkCandle 1764666000000 102 102 (1019 / 10))
        (holding (mkPosition Long 100 1764623100000 True (Some 102))))) = [''tp-time-exit''] \<and>
   map exitPrice (state.trades
     (checkPosition DEFAULT_CONFIG DEFAULT_COSTS (mkCandle 1764666000000 102 102 (1019 / 10))
        (holding (mkPosition Long 100 1764623100000 True (Some 102))))) = [102] \<and>
   checkPosition DEFAULT_CONFIG DEFAULT_COSTS (mkCandle 1764623400000 102 (1021 / 10) (1019 / 10))
      (holding (mkPosition Long 100 1764623100000 True (Some 102))) =
    holding (mkPosition Long 100 1764623100000 True (Some (1021 / 10))) \<and>
   state.trades
     (checkPosition DEFAULT_CONFIG DEFAULT_COSTS (mkCandle 1764623400000 102 (1021 / 10) (1019 / 10))
        (holding (mkPosition Long 100 1764623100000 True (Some 102)))) = []"
proof -
  let ?p = "mkPosition Long 100 1764623100000 True (Some 102)"
  have h1: "position (holding ?p) = Some ?p" by (simp add: holding_def)
  have h2: "position.side ?p = Long" and h3: "inTpZone ?p" and h4: "peakPrice ?p = Some 102"
    by (simp_all add: mkPosition_def)
  have cfg: "tpZoneHoursThreshold DEFAULT_CONFIG = 6" "tpZoneTrailingStopPct DEFAULT_CONFIG = 1 / 2"
    by (simp_all add: DEFAULT_CONFIG_def)
  have sel: "position.entryPrice ?p = 100"
    "timestamp (mkCandle ts p h l) = ts" "high (mkCandle ts p h l) = h"
    "low (mkCandle ts p h l) = l" "price (mkCandle ts p h l) = p" for ts p h l
    by (simp_all add: mkPosition_def mkCandle_def)
  have upd: "?p\<lparr>peakPrice := Some x\<rparr> = mkPosition Long 100 1764623100000 True (Some x)"
    "(holding ?p)\<lparr>position := Some q\<rparr> = holding q" "state.trades (holding q) = []" for x q
    by (simp_all add: holding_def mkPosition_def initState_def)
  have ev: "map exitReason (state.trades
       (checkPosition DEFAULT_CONFIG DEFAULT_COSTS (mkCandle 1764623700000 100 101 99)
          (holding ?p))) = [''tp-below-entry'']"
    "map exitPrice (state.trades
       (checkPosition DEFAULT_CONFIG DEFAULT_COSTS (mkCandle 1764623700000 100 101 99)
          (holding ?p))) = [999 / 10]"
    "map exitReason (state.trades
       (checkPosition DEFAULT_CONFIG DEFAULT_COSTS (mkCandle 1764623700000 102 103 102)
          (holding ?p))) = [''tp-trailing-stop'']"
    "map exitPrice (state.trades
       (checkPosition DEFAULT_CONFIG DEFAULT_COSTS (mkCandle 1764623700000 102 103 102)
          (holding ?p))) = [20497 / 200]"
    "map exitReason (state.trades
       (checkPosition DEFAULT_CONFIG DEFAULT_COSTS (mkCandle 1764666000000 102 102 (1019 / 10))
          (holding ?p))) = [''tp-time-exit'']"
    "map exitPrice (state.trades
       (checkPosition DEFAULT_CONFIG DEFAULT_COSTS (mkCandle 1764666000000 102 102 (1019 / 10))
          (holding ?p))) = [102]"
    by code_simp+
  show ?thesis
    using tp_zone_step [OF h1 h2 h3 h4, of "mkCandle 1764623700000 100 101 99"
        DEFAULT_CONFIG DEFAULT_COSTS]
      tp_zone_step [OF h1 h2 h3 h4, of "mkCandle 1764623700000 102 103 102"
        DEFAULT_CONFIG DEFAULT_COSTS]
      tp_zone_step [OF h1 h2 h3 h4, of "mkCandle 1764666000000 102 102 (1019 / 10)"
        DEFAULT_CONFIG DEFAULT_COSTS]
      tp_zone_step [OF h1 h2 h3 h4, of "mkCandle 1764623400000 102 (1021 / 10) (1019 / 10)"
        DEFAULT_CONFIG DEFAULT_COSTS]
    by (simp add: sel cfg hours_mon_1610 hours_tue_0400 upd ev)
qed

subsection \<open>The loop and its result\<close>

lemma mkPosition_fields:
  "position.side (mkPosition sd ep et tp pk) = sd"
  "position.entryPrice (mkPosition sd ep et tp pk) = ep"
  "position.entryTime (mkPosition sd ep et tp pk) = et"
  "inTpZone (mkPosition sd ep et tp pk) = tp"
  "peakPrice (mkPosition sd ep et tp pk) = pk"
  by (simp_all add: mkPosition_def)

lemma trackDrawdown_fields:
  "state.trades (trackDrawdown st) = state.trades st"
  "equity (trackDrawdown st) = equity st"
  "position (trackDrawdown st) = position st"
  "previousZone (trackDrawdown st) = previousZone st"
  by (simp_all add: trackDrawdown_def Let_def)

lemma runBacktest_fields:
  "backtestResult.trades (runBacktest cs cfg cc) =
     state.trades (closeRemaining cfg cc cs (loop cfg cc initState cs))"
  "backtestResult.netPnlPct (runBacktest cs cfg cc) =
     equity (closeRemaining cfg cc cs (loop cfg cc initState cs)) - 100"
  "maxDrawdownPct (runBacktest cs cfg cc) =
     maxDrawdown (closeRemaining cfg cc cs (loop cfg cc initState cs))"
  by (simp_all add: runBacktest_def calculateStats_def Let_def)

text \<open>The three sample runs, evaluated.\<close>

lemma flipOnlyRun_final:
  "closeRemaining DEFAULT_CONFIG DEFAULT_COSTS flipOnlyRun
     (loop DEFAULT_CONFIG DEFAULT_COSTS initState flipOnlyRun) =
   \<lparr>state.trades =
      [closeTrade (mkPosition Short 100 1764599400000 False None) 100 1764599400000
         ''backtest-end'' DEFAULT_CONFIG DEFAULT_COSTS],
    position = Some (mkPosition Short 100 1764599400000 False None),
    previousZone = Some Short, equity = 98, peakEquity = 100, maxDrawdown = 0,
    totalCosts = \<lparr>fees = 1, slippage = 1, funding = 0\<rparr>\<rparr>"
  by code_simp

lemma shortRun_final:
  "closeRemaining DEFAULT_CONFIG DEFAULT_COSTS shortRun
     (loop DEFAULT_CONFIG DEFAULT_COSTS initState shortRun) =
   \<lparr>state.trades =
      [closeTrade (mkPosition Short 100 1764599400000 False None) 99 1764599700000
         ''profit-target'' DEFAULT_CONFIG DEFAULT_COSTS],
    position = None,
    previousZone = Some Short, equity = 108, peakEquity = 108, maxDrawdown = 0,
    totalCosts = \<lparr>fees = 1, slippage = 1, funding = 0\<rparr>\<rparr>"
  by code_simp

lemma doubleCloseRun_final:
  "map exitReason (state.trades (closeRemaining DEFAULT_CONFIG DEFAULT_COSTS doubleCloseRun
      (loop DEFAULT_CONFIG DEFAULT_COSTS initState doubleCloseRun))) =
     [''zone-flip'', ''profit-target'']"
  "map trade.netPnlPct (state.trades (closeRemaining DEFAULT_CONFIG DEFAULT_COSTS doubleCloseRun
      (loop DEFAULT_CONFIG DEFAULT_COSTS initState doubleCloseRun))) = [- (61 / 5), 8]"
  "map exitTime (state.trades (closeRemaining DEFAULT_CONFIG DEFAULT_COSTS doubleCloseRun
      (loop DEFAULT_CONFIG DEFAULT_COSTS initState doubleCloseRun))) =
     [1764685800000, 1764685800000]"
  "maxDrawdown (closeRemaining DEFAULT_CONFIG DEFAULT_COSTS doubleCloseRun
      (loop DEFAULT_CONFIG DEFAULT_COSTS initState doubleCloseRun)) = 21 / 5"
  by code_simp+

lemma sample_trade_values:
  "trade.netPnlPct (closeTrade (mkPosition Short 100 1764599400000 False None) 100 1764599400000
         ''backtest-end'' DEFAULT_CONFIG DEFAULT_COSTS) = - 2"
  "trade.netPnlPct (closeTrade (mkPosition Short 100 1764599400000 False None) 99 1764599700000
         ''profit-target'' DEFAULT_CONFIG DEFAULT_COSTS) = 8"
  "trade.grossPnlPct (closeTrade (mkPosition Short 100 1764599400000 False None) 99 1764599700000
         ''profit-target'' DEFAULT_CONFIG DEFAULT_COSTS) = 10"
  "totalCostPct (trade.costs (closeTrade (mkPosition Short 100 1764599400000 False None) 99 1764599700000
         ''profit-target'' DEFAULT_CONFIG DEFAULT_COSTS)) = 1 / 5"
  by code_simp+

text \<open>
  The two assumptions of \<open>tp_zone_step\<close> on the position, a long with a recorded peak,
  hold of every position that \<open>runBacktest\<close> finds in the take-profit zone.
\<close>

lemma zoneFlip_tpZoneInv: "tpZoneInv st \<Longrightarrow> tpZoneInv (zoneFlip cfg cc c z st)"
  by (simp add: tpZoneInv_def zoneFlip_def recordTrade_def Let_def split: option.splits)

lemma checkPosition_tpZoneInv: "tpZoneInv st \<Longrightarrow> tpZoneInv (checkPosition cfg cc c st)"
  by (auto simp add: tpZoneInv_def checkPosition_def recordTrade_def Let_def
      shouldEnterTpZone_def split: option.splits)

lemma step_tpZoneInv: "tpZoneInv st \<Longrightarrow> tpZoneInv (step cfg cc st c)"
proof -
  assume "tpZoneInv st"
  then have "tpZoneInv (checkPosition cfg cc c (zoneFlip cfg cc c (getZone (timestamp c) cfg) st))"
    by (intro checkPosition_tpZoneInv zoneFlip_tpZoneInv)
  then show ?thesis
    by (simp add: tpZoneInv_def step_def Let_def trackDrawdown_fields)
qed

lemma loop_tpZoneInv: "tpZoneInv st \<Longrightarrow> tpZoneInv (loop cfg cc st cs)"
  by (induction cs arbitrary: st) (simp_all add: step_tpZoneInv)

lemma reachable_tp_zone_has_peak:
  assumes "position (loop cfg cc initState cs) = Some p" and "inTpZone p"
  shows "position.side p = Long \<and> (\<exists>pk. peakPrice p = Some pk)"
proof -
  have "tpZoneInv initState" by (simp add: tpZoneInv_def initState_def)
  from loop_tpZoneInv [OF this, of cfg cc cs] assms show ?thesis
    by (auto simp add: tpZoneInv_def)
qed

text \<open>The three values of \<open>calcProfitPct\<close> that \<open>src/backtest/test-local.js\<close> expects.\<close>

lemma calcProfitPct_examples:
  "calcProfitPct 100000 101000 Long = 1"
  "calcProfitPct 100000 99000 Short = 1"
  "calcProfitPct 100000 99000 Long = - 1"
  by (simp_all add: calcProfitPct_def)

subsection \<open>Net PnL is the sum over the trade log, in exact arithmetic\<close>

lemma zoneFlip_equityInv: "equityInv st \<Longrightarrow> equityInv (zoneFlip cfg cc c z st)"
  by (simp add: equityInv_def zoneFlip_def recordTrade_def Let_def split: option.splits)

lemma checkPosition_equityInv: "equityInv st \<Longrightarrow> equityInv (checkPosition cfg cc c st)"
  by (simp add: equityInv_def checkPosition_def recordTrade_def Let_def split: option.splits)

lemma step_equityInv: "equityInv st \<Longrightarrow> equityInv (step cfg cc st c)"
proof -
  assume "equityInv st"
  then have "equityInv (checkPosition cfg cc c (zoneFlip cfg cc c (getZone (timestamp c) cfg) st))"
    by (intro checkPosition_equityInv zoneFlip_equityInv)
  then show ?thesis
    by (simp add: equityInv_def step_def Let_def trackDrawdown_fields)
qed

lemma loop_equityInv: "equityInv st \<Longrightarrow> equityInv (loop cfg cc st cs)"
  by (induction cs arbitrary: st) (simp_all add: step_equityInv)

lemma closeRemaining_equityInv: "equityInv st \<Longrightarrow> equityInv (closeRemaining cfg cc cs st)"
  by (simp add: equityInv_def closeRemaining_def recordTrade_def Let_def split: option.splits)

text \<open>
  In exact arithmetic the net PnL that \<open>runBacktest\<close> returns, the final equity less 100,
  is the sum of the net PnL of the trades of the returned log. Over doubles it is not,
  as the last section shows.
\<close>

lemma netPnlPct_sum_exact:
  "backtestResult.netPnlPct (runBacktest cs cfg cc) =
   sum_list (map trade.netPnlPct (backtestResult.trades (runBacktest cs cfg cc)))"
proof -
  have "equityInv initState"
    by (simp add: equityInv_def initState_def)
  then have "equityInv (closeRemaining cfg cc cs (loop cfg cc initState cs))"
    by (intro closeRemaining_equityInv loop_equityInv)
  then show ?thesis by (simp add: runBacktest_fields equityInv_def)
qed

text \<open>On \<open>shortRun\<close> the log holds one trade of net PnL 8, and 8 is returned.\<close>

lemma netPnlPct_shortRun:
  "backtestResult.netPnlPct (runBacktest shortRun DEFAULT_CONFIG DEFAULT_COSTS) = 8"
  by (simp add: runBacktest_fields shortRun_final)

subsection \<open>Every trade of the log comes from \<open>closeTrade\<close>\<close>

lemma zoneFlip_trades_pred:
  assumes "\<And>p x tm r. P (closeTrade p x tm r cfg cc)" and "\<forall>t \<in> set (state.trades st). P t"
  shows "\<forall>t \<in> set (state.trades (zoneFlip cfg cc c z st)). P t"
  using assms by (simp add: zoneFlip_def recordTrade_def Let_def split: option.splits)

lemma checkPosition_trades_pred:
  assumes "\<And>p x tm r. P (closeTrade p x tm r cfg cc)" and "\<forall>t \<in> set (state.trades st). P t"
  shows "\<forall>t \<in> set (state.trades (checkPosition cfg cc c st)). P t"
  using assms by (simp add: checkPosition_def recordTrade_def Let_def split: option.splits)

lemma step_trades_pred:
  assumes "\<And>p x tm r. P (closeTrade p x tm r cfg cc)" and "\<forall>t \<in> set (state.trades st). P t"
  shows "\<forall>t \<in> set (state.trades (step cfg cc st c)). P t"
  unfolding step_def Let_def
  using checkPosition_trades_pred [of P cfg cc, OF assms(1) zoneFlip_trades_pred [of P cfg cc, OF assms]]
  by (simp add: trackDrawdown_fields)

lemma loop_trades_pred:
  assumes "\<And>p x tm r. P (closeTrade p x tm r cfg cc)" and "\<forall>t \<in> set (state.trades st). P t"
  shows "\<forall>t \<in> set (state.trades (loop cfg cc st cs)). P t"
  using assms(2)
proof (induction cs arbitrary: st)
  case Nil
  then show ?case by simp
next
  case (Cons c cs)
  from step_trades_pred [of P cfg cc, OF assms(1) Cons.prems]
  have "\<forall>t \<in> set (state.trades (step cfg cc st c)). P t" .
  from Cons.IH [OF this] show ?case by simp
qed

lemma closeRemaining_trades_pred:
  assumes "\<And>p x tm r. P (closeTrade p x tm r cfg cc)" and "\<forall>t \<in> set (state.trades st). P t"
  shows "\<forall>t \<in> set (state.trades (closeRemaining cfg cc cs st)). P t"
  using assms by (simp add: closeRemaining_def recordTrade_def Let_def split: option.splits)

lemma runBacktest_trades_pred:
  assumes "\<And>p x tm r. P (closeTrade p x tm r cfg cc)"
  shows "\<forall>t \<in> set (backtestResult.trades (runBacktest cs cfg cc)). P t"
proof -
  have "\<forall>t \<in> set (state.trades initState). P t" by (simp add: initState_def)
  from closeRemaining_trades_pred [of P cfg cc, OF assms loop_trades_pred [of P cfg cc, OF assms this]]
  show ?thesis by (simp add: runBacktest_fields)
qed

lemma closeTrade_cost_identity:
  "trade.netPnlPct (closeTrade p x tm r cfg cc) =
     trade.grossPnlPct (closeTrade p x tm r cfg cc)
     - leverage cfg * totalCostPct (trade.costs (closeTrade p x tm r cfg cc))"
  "trade.grossPnlPct (closeTrade p x tm r cfg cc) =
     pricePct (trade.entryPrice (closeTrade p x tm r cfg cc))
       (exitPrice (closeTrade p x tm r cfg cc)) (trade.side (closeTrade p x tm r cfg cc))
     * leverage cfg"
  "totalCostPct (trade.costs (closeTrade p x tm r cfg cc)) =
     totalCostPctSpec cc (durationHours (closeTrade p x tm r cfg cc))
       (trade.side (closeTrade p x tm r cfg cc))"
  by (cases "position.side p";
      simp add: closeTrade_def calcNetPnl_def calcTradePnl_def calcProfitPct_def
        calcTradingCosts_def Let_def pricePct_def totalCostPctSpec_def)+

text \<open>
  C3. For every trade of the returned log: the net PnL is the gross PnL less the
  leverage times the total cost; the gross PnL is the price move in the trade's favour
  times the leverage; the total cost is twice the taker fee plus twice the slippage plus
  the funding of the whole funding periods of the trade, paid by a long and received by a
  short.
\<close>

theorem trade_cost_identity:
  assumes "t \<in> set (backtestResult.trades (runBacktest cs cfg cc))"
  shows "trade.netPnlPct t = trade.grossPnlPct t - leverage cfg * totalCostPct (trade.costs t) \<and>
         trade.grossPnlPct t =
           pricePct (trade.entryPrice t) (exitPrice t) (trade.side t) * leverage cfg \<and>
         totalCostPct (trade.costs t) = totalCostPctSpec cc (durationHours t) (trade.side t)"
  using runBacktest_trades_pred
    [of "\<lambda>t. trade.netPnlPct t = trade.grossPnlPct t - leverage cfg * totalCostPct (trade.costs t) \<and>
         trade.grossPnlPct t =
           pricePct (trade.entryPrice t) (exitPrice t) (trade.side t) * leverage cfg \<and>
         totalCostPct (trade.costs t) = totalCostPctSpec cc (durationHours t) (trade.side t)"
      cfg cc cs]
    closeTrade_cost_identity [of _ _ _ _ cfg cc] assms
  by blast

text \<open>
  The trade of \<open>shortRun\<close>: a short from 100 to 99 held for five minutes, gross 10, total
  cost 1/5, net 8.
\<close>

theorem trade_cost_identity_witness:
  "closeTrade (mkPosition Short 100 1764599400000 False None) 99 1764599700000
     ''profit-target'' DEFAULT_CONFIG DEFAULT_COSTS
     \<in> set (backtestResult.trades (runBacktest shortRun DEFAULT_CONFIG DEFAULT_COSTS)) \<and>
   trade.netPnlPct (closeTrade (mkPosition Short 100 1764599400000 False None) 99
     1764599700000 ''profit-target'' DEFAULT_CONFIG DEFAULT_COSTS) = 8 \<and>
   (8 :: real) = 10 - 10 * (1 / 5) \<and>
   (10 :: real) = pricePct 100 99 Short * 10 \<and>
   (1 / 5 :: real) = totalCostPctSpec DEFAULT_COSTS (1 / 12) Short"
proof -
  let ?t = "closeTrade (mkPosition Short 100 1764599400000 False None) 99 1764599700000
     ''profit-target'' DEFAULT_CONFIG DEFAULT_COSTS"
  have m: "?t \<in> set (backtestResult.trades (runBacktest shortRun DEFAULT_CONFIG DEFAULT_COSTS))"
    by (simp add: runBacktest_fields shortRun_final)
  have d: "durationHours ?t = 1 / 12" "leverage DEFAULT_CONFIG = 10"
    by code_simp+
  have "trade.netPnlPct ?t = trade.grossPnlPct ?t - leverage DEFAULT_CONFIG * totalCostPct (trade.costs ?t)"
    and "trade.grossPnlPct ?t =
           pricePct (trade.entryPrice ?t) (exitPrice ?t) (trade.side ?t) * leverage DEFAULT_CONFIG"
    and "totalCostPct (trade.costs ?t) =
           totalCostPctSpec DEFAULT_COSTS (durationHours ?t) (trade.side ?t)"
    using trade_cost_identity [OF m] by simp_all
  then have "(8 :: real) = 10 - 10 * (1 / 5)" "(10 :: real) = pricePct 100 99 Short * 10"
    "(1 / 5 :: real) = totalCostPctSpec DEFAULT_COSTS (1 / 12) Short"
    unfolding sample_trade_values closeTrade_fields d mkPosition_fields by simp_all
  with m sample_trade_values(2) show ?thesis by blast
qed

subsection \<open>The empty candle sequence\<close>

text \<open>
  C8. On no candles \<open>runBacktest\<close> returns an empty trade log and aggregates that are
  all zero. Each ratio of \<open>calculateStats\<close> is behind the test of its divisor
  (\<open>length > 0\<close>, \<open>length > 1\<close>, \<open>stdDev > 0\<close>), and on the empty log every test fails.
\<close>

theorem runBacktest_empty:
  "backtestResult.trades (runBacktest [] cfg cc) = [] \<and>
   backtestResult.netPnlPct (runBacktest [] cfg cc) = 0 \<and>
   totalPnlPct (runBacktest [] cfg cc) = 0 \<and>
   backtestResult.grossPnlPct (runBacktest [] cfg cc) = 0 \<and>
   backtestResult.winRate (runBacktest [] cfg cc) = 0 \<and>
   maxDrawdownPct (runBacktest [] cfg cc) = 0 \<and>
   sharpeRatio (runBacktest [] cfg cc) = 0 \<and>
   avgWin (stats (runBacktest [] cfg cc)) = 0 \<and>
   avgLoss (stats (runBacktest [] cfg cc)) = 0 \<and>
   avgTradeDuration (stats (runBacktest [] cfg cc)) = 0 \<and>
   totalTrades (stats (runBacktest [] cfg cc)) = 0 \<and>
   sideStats.winRate (longStats (stats (runBacktest [] cfg cc))) = 0 \<and>
   sideStats.winRate (shortStats (stats (runBacktest [] cfg cc))) = 0 \<and>
   byExitReason (stats (runBacktest [] cfg cc)) = []"
  by (simp add: runBacktest_def calculateStats_def closeRemaining_def initState_def
      sideStatsOf_def Let_def)

subsection \<open>No entry before the first zone change\<close>

lemma step_same_zone:
  assumes "position st = None" "state.trades st = []"
    "previousZone st = None \<or> previousZone st = Some z" "getZone (timestamp c) cfg = z"
  shows "position (step cfg cc st c) = None \<and> state.trades (step cfg cc st c) = [] \<and>
         previousZone (step cfg cc st c) = Some z"
  using assms
  by (auto simp add: step_def zoneFlip_def checkPosition_def trackDrawdown_fields Let_def)

lemma loop_same_zone:
  assumes "\<forall>c \<in> set cs. getZone (timestamp c) cfg = z"
    "position st = None" "state.trades st = []"
    "previousZone st = None \<or> previousZone st = Some z"
  shows "position (loop cfg cc st cs) = None \<and> state.trades (loop cfg cc st cs) = []"
  using assms
proof (induction cs arbitrary: st)
  case Nil
  then show ?case by simp
next
  case (Cons c cs)
  from Cons.prems have z: "getZone (timestamp c) cfg = z" by simp
  from step_same_zone [OF Cons.prems(2,3,4) z, of cc]
  have s: "position (step cfg cc st c) = None" "state.trades (step cfg cc st c) = []"
    "previousZone (step cfg cc st c) = None \<or> previousZone (step cfg cc st c) = Some z"
    by simp_all
  from Cons.prems(1) have r: "\<forall>c \<in> set cs. getZone (timestamp c) cfg = z" by simp
  from Cons.IH [OF r s] show ?case by simp
qed

text \<open>
  A flip at a candle that follows a candle of time \<open>lst\<close> means a zone other than the
  zone of \<open>lst\<close>, hence a time other than \<open>lst\<close>, hence, the candles being in order, a
  time after \<open>ts0\<close>.
\<close>

lemma zoneFlip_noEntryAt:
  assumes "noEntryAt ts0 st" "previousZone st = Some (getZone lst cfg)"
    "ts0 \<le> lst" "lst \<le> timestamp c"
  shows "noEntryAt ts0 (zoneFlip cfg cc c (getZone (timestamp c) cfg) st)"
proof (cases "getZone (timestamp c) cfg = getZone lst cfg")
  case True
  with assms show ?thesis by (simp add: zoneFlip_def)
next
  case False
  then have "timestamp c \<noteq> lst" by auto
  with assms have "timestamp c \<noteq> ts0" by simp
  with assms(1,2) False show ?thesis
    by (auto simp add: zoneFlip_def noEntryAt_def recordTrade_def closeTrade_fields Let_def
        split: option.splits)
qed

lemma checkPosition_noEntryAt:
  assumes "noEntryAt ts0 st"
  shows "noEntryAt ts0 (checkPosition cfg cc c st)"
  using assms
  by (auto simp add: checkPosition_def noEntryAt_def recordTrade_def closeTrade_fields Let_def
      split: option.splits)

lemma step_noEntryAt:
  assumes "noEntryAt ts0 st" "previousZone st = Some (getZone lst cfg)"
    "ts0 \<le> lst" "lst \<le> timestamp c"
  shows "noEntryAt ts0 (step cfg cc st c) \<and>
         previousZone (step cfg cc st c) = Some (getZone (timestamp c) cfg)"
proof -
  have "noEntryAt ts0 (checkPosition cfg cc c (zoneFlip cfg cc c (getZone (timestamp c) cfg) st))"
    by (intro checkPosition_noEntryAt zoneFlip_noEntryAt [OF assms])
  then show ?thesis
    by (simp add: step_def Let_def noEntryAt_def trackDrawdown_fields)
qed

lemma loop_noEntryAt:
  assumes "noEntryAt ts0 st" "previousZone st = Some (getZone lst cfg)"
    "ts0 \<le> lst" "sorted (lst # map timestamp cs)"
  shows "noEntryAt ts0 (loop cfg cc st cs)"
  using assms
proof (induction cs arbitrary: st lst)
  case Nil
  then show ?case by simp
next
  case (Cons c cs)
  from Cons.prems(4) have le: "lst \<le> timestamp c" and srt: "sorted (timestamp c # map timestamp cs)"
    by simp_all
  from step_noEntryAt [OF Cons.prems(1,2,3) le, of cc]
  have s: "noEntryAt ts0 (step cfg cc st c)"
    "previousZone (step cfg cc st c) = Some (getZone (timestamp c) cfg)" by simp_all
  from Cons.prems(3) le have "ts0 \<le> timestamp c" by simp
  from Cons.IH [OF s this srt] show ?case by simp
qed

lemma closeRemaining_noEntryAt:
  "noEntryAt ts0 st \<Longrightarrow> noEntryAt ts0 (closeRemaining cfg cc cs st)"
  by (auto simp add: closeRemaining_def noEntryAt_def recordTrade_def closeTrade_fields Let_def
      split: option.splits)

text \<open>
  C9. While every candle so far classifies to one zone no position is opened: a run
  over candles of one zone ends without a position and returns an empty trade log. And
  on candles in the order of their timestamps (the order the input contract asks for) no
  trade of the log was entered at the timestamp of the first candle.
\<close>

theorem no_entry_before_first_flip:
  "((\<forall>c \<in> set cs. getZone (timestamp c) cfg = z) \<longrightarrow>
      position (loop cfg cc initState cs) = None \<and>
      backtestResult.trades (runBacktest cs cfg cc) = []) \<and>
   (sorted (map timestamp cs) \<longrightarrow>
      (\<forall>t \<in> set (backtestResult.trades (runBacktest cs cfg cc)).
         trade.entryTime t \<noteq> timestamp (hd cs)))"
proof (intro conjI impI)
  assume a: "\<forall>c \<in> set cs. getZone (timestamp c) cfg = z"
  have i: "position initState = None" "state.trades initState = []"
    "previousZone initState = None \<or> previousZone initState = Some z"
    by (simp_all add: initState_def)
  from loop_same_zone [OF a i, of cc]
  show "position (loop cfg cc initState cs) = None"
    and "backtestResult.trades (runBacktest cs cfg cc) = []"
    by (simp_all add: runBacktest_fields closeRemaining_def)
next
  assume srt: "sorted (map timestamp cs)"
  show "\<forall>t \<in> set (backtestResult.trades (runBacktest cs cfg cc)).
          trade.entryTime t \<noteq> timestamp (hd cs)"
  proof (cases cs)
    case Nil
    then show ?thesis
      by (simp add: runBacktest_fields closeRemaining_def initState_def)
  next
    case (Cons c0 rest)
    have f: "noEntryAt (timestamp c0) (step cfg cc initState c0)"
      "previousZone (step cfg cc initState c0) = Some (getZone (timestamp c0) cfg)"
      by (simp_all add: step_def zoneFlip_def checkPosition_def trackDrawdown_fields
          noEntryAt_def initState_def Let_def)
    from srt Cons have s: "sorted (timestamp c0 # map timestamp rest)" by simp
    from loop_noEntryAt [OF f order_refl s, of cc]
    have "noEntryAt (timestamp c0) (loop cfg cc initState cs)"
      using Cons by simp
    from closeRemaining_noEntryAt [OF this, of cfg cc cs]
    show ?thesis using Cons by (simp add: runBacktest_fields noEntryAt_def)
  qed
qed

text \<open>
  \<open>quietRun\<close> stays in the long zone although its second candle moves by 2 per cent;
  \<open>shortRun\<close> is in order and its one trade was entered at its second candle.
\<close>

theorem no_entry_before_first_flip_witness:
  "getZone (timestamp (quietRun ! 0)) DEFAULT_CONFIG = Long \<and>
   getZone (timestamp (quietRun ! 1)) DEFAULT_CONFIG = Long \<and>
   length quietRun = 2 \<and>
   position (loop DEFAULT_CONFIG DEFAULT_COSTS initState quietRun) = None \<and>
   backtestResult.trades (runBacktest quietRun DEFAULT_CONFIG DEFAULT_COSTS) = [] \<and>
   sorted (map timestamp shortRun) \<and>
   length (backtestResult.trades (runBacktest shortRun DEFAULT_CONFIG DEFAULT_COSTS)) = 1 \<and>
   trade.entryTime (hd (backtestResult.trades (runBacktest shortRun DEFAULT_CONFIG DEFAULT_COSTS)))
     \<noteq> timestamp (hd shortRun)"
proof -
  have q: "getZone (timestamp (quietRun ! 0)) DEFAULT_CONFIG = Long"
    "getZone (timestamp (quietRun ! 1)) DEFAULT_CONFIG = Long" "length quietRun = 2"
    by code_simp+
  have qs: "set quietRun = {quietRun ! 0, quietRun ! 1}"
    by (simp add: quietRun_def)
  have qa: "\<forall>c \<in> set quietRun. getZone (timestamp c) DEFAULT_CONFIG = Long"
    unfolding qs using q by simp
  have s: "sorted (map timestamp shortRun)" by code_simp
  have l: "length (backtestResult.trades (runBacktest shortRun DEFAULT_CONFIG DEFAULT_COSTS)) = 1"
    by (simp add: runBacktest_fields shortRun_final)
  then have h: "hd (backtestResult.trades (runBacktest shortRun DEFAULT_CONFIG DEFAULT_COSTS))
      \<in> set (backtestResult.trades (runBacktest shortRun DEFAULT_CONFIG DEFAULT_COSTS))"
    by (intro hd_in_set) auto
  show ?thesis
    using q qa s l h no_entry_before_first_flip [of quietRun DEFAULT_CONFIG Long DEFAULT_COSTS]
      no_entry_before_first_flip [of shortRun DEFAULT_CONFIG Long DEFAULT_COSTS]
    by blast
qed

text \<open>
  The order of the candles is used: where a later candle carries the timestamp of the
  first one again, a position can be entered at that timestamp.
\<close>

lemma entryTime_unsorted:
  "\<not> sorted (map timestamp unsortedRun) \<and>
   timestamp (hd unsortedRun) = 1764599100000 \<and>
   map trade.entryTime
     (state.trades (closeRemaining DEFAULT_CONFIG DEFAULT_COSTS unsortedRun
        (loop DEFAULT_CONFIG DEFAULT_COSTS initState unsortedRun)))
   = [1764599400000, 1764599100000]"
  by code_simp

subsection \<open>Sharpe ratio, in exact arithmetic\<close>

lemma foldl_add_sum_list: "foldl (\<lambda>a b. a + b) a xs = a + sum_list (xs :: real list)"
  by (induction xs arbitrary: a) simp_all

lemma foldl_add_map: "foldl (\<lambda>s r. s + f r) a xs = a + sum_list (map f (xs :: real list))"
  for f :: "real \<Rightarrow> real"
  by (induction xs arbitrary: a) simp_all

lemma sampleStdDev_nonneg: "0 \<le> sampleStdDev rs"
proof -
  have "0 \<le> sum_list (map (\<lambda>r. (r - mean rs) ^ 2) rs)"
    by (rule sum_list_nonneg) auto
  moreover have "2 \<le> length rs \<Longrightarrow> 0 < real (length rs) - 1" by simp
  ultimately show ?thesis
    by (simp add: sampleStdDev_def)
qed

lemma avg_code:
  "(if length rs > 0 then foldl (\<lambda>a b. a + b) 0 rs / real (length rs) else 0) = mean rs"
  by (simp add: mean_def foldl_add_sum_list)

lemma sd_code:
  "(if length rs > 1
    then sqrt (foldl (\<lambda>sum r. sum + (r - mean rs) ^ 2) 0 rs / (real (length rs) - 1))
    else 0) = sampleStdDev rs"
proof (cases "length rs < 2")
  case True
  then have "\<not> length rs > 1" by simp
  with True show ?thesis by (simp only: sampleStdDev_def if_True if_False)
next
  case False
  then have "length rs > 1" by simp
  with False show ?thesis
    by (simp only: sampleStdDev_def if_True if_False
        foldl_add_map [where f = "\<lambda>r. (r - mean rs) ^ 2"] add_0)
qed

text \<open>
  In exact arithmetic the Sharpe ratio of \<open>calculateStats\<close> takes the net PnL of each
  trade as one return and is \<open>mean / sampleStdDev * sqrt 252\<close>, the standard deviation
  with divisor N - 1; it is 0 for fewer than two trades and for a standard deviation of
  0. Over doubles the last part fails, as the last section shows.
\<close>

lemma sharpeRatio_exact:
  "sharpeRatio (calculateStats ts finalEquity maxDd cfg cc tc) =
     sharpeSpec (map trade.netPnlPct ts) \<and>
   sharpeRatio (runBacktest cs cfg cc) =
     sharpeSpec (map trade.netPnlPct (backtestResult.trades (runBacktest cs cfg cc)))"
proof -
  have main: "sharpeRatio (calculateStats ts finalEquity maxDd cfg cc tc) =
     sharpeSpec (map trade.netPnlPct ts)" for ts finalEquity maxDd tc
  proof -
    let ?rs = "map trade.netPnlPct ts"
    have avg: "(if length ?rs > 0
                then foldl (\<lambda>a b. a + b) 0 ?rs / real (length ?rs) else 0) = mean ?rs"
      by (rule avg_code)
    have sd: "(if length ?rs > 1
               then sqrt (foldl (\<lambda>sum r. sum + (r - mean ?rs) ^ 2) 0 ?rs
                          / (real (length ?rs) - 1))
               else 0) = sampleStdDev ?rs"
      by (rule sd_code)
    have "sharpeRatio (calculateStats ts finalEquity maxDd cfg cc tc) =
          (if sampleStdDev ?rs > 0 then mean ?rs / sampleStdDev ?rs * sqrt 252 else 0)"
      unfolding calculateStats_def Let_def avg sd by simp
    also have "\<dots> = sharpeSpec ?rs"
    proof (cases "length ?rs < 2")
      case True
      then show ?thesis by (simp add: sharpeSpec_def sampleStdDev_def)
    next
      case False
      with sampleStdDev_nonneg [of ?rs] show ?thesis
        by (auto simp add: sharpeSpec_def simp del: length_map)
    qed
    finally show ?thesis .
  qed
  have tr: "backtestResult.trades (calculateStats ts finalEquity maxDd cfg cc tc) = ts"
    for ts finalEquity maxDd tc
    by (simp add: calculateStats_def Let_def)
  show ?thesis
    unfolding runBacktest_def Let_def main tr by simp
qed

text \<open>Returns 1 and 3: mean 2, standard deviation \<open>sqrt 2\<close>.\<close>

lemma sharpeSpec_example: "sharpeSpec [1, 3] = 2 / sqrt 2 * sqrt 252"
  by (simp add: sharpeSpec_def sampleStdDev_def mean_def)

subsection \<open>Maximal drawdown\<close>

lemma maxDrawdown_fields:
  "maxDrawdown (zoneFlip cfg cc c z st) = maxDrawdown st"
  "maxDrawdown (checkPosition cfg cc c st) = maxDrawdown st"
  "maxDrawdown (closeRemaining cfg cc cs st) = maxDrawdown st"
  by (simp_all add: zoneFlip_def checkPosition_def closeRemaining_def recordTrade_def Let_def
      split: option.splits)

lemma step_maxDrawdown_nonneg: "0 \<le> maxDrawdown st \<Longrightarrow> 0 \<le> maxDrawdown (step cfg cc st c)"
  by (simp add: step_def trackDrawdown_def maxDrawdown_fields Let_def)

lemma loop_maxDrawdown_nonneg: "0 \<le> maxDrawdown st \<Longrightarrow> 0 \<le> maxDrawdown (loop cfg cc st cs)"
  by (induction cs arbitrary: st) (simp_all add: step_maxDrawdown_nonneg)

text \<open>The returned maximal drawdown is never negative.\<close>

lemma maxDrawdownPct_nonneg: "0 \<le> maxDrawdownPct (runBacktest cs cfg cc)"
proof -
  have "0 \<le> maxDrawdown initState" by (simp add: initState_def)
  from loop_maxDrawdown_nonneg [OF this] show ?thesis
    by (simp add: runBacktest_fields maxDrawdown_fields)
qed

text \<open>
  C4. The drawdown is recomputed once at the end of every iteration of the loop, and
  the closure of the position left after the last candle comes after the loop. On
  \<open>flipOnlyRun\<close> the only trade is that closure, net PnL -2: the equity ends at 98 under a
  peak of 100, a drawdown of 2 per cent, and the returned maximal drawdown is 0.
\<close>

theorem maxDrawdown_misses_final_closure:
  "map exitReason (backtestResult.trades (runBacktest flipOnlyRun DEFAULT_CONFIG DEFAULT_COSTS))
     = [''backtest-end''] \<and>
   map trade.netPnlPct (backtestResult.trades (runBacktest flipOnlyRun DEFAULT_CONFIG DEFAULT_COSTS))
     = [- 2] \<and>
   backtestResult.netPnlPct (runBacktest flipOnlyRun DEFAULT_CONFIG DEFAULT_COSTS) = - 2 \<and>
   maxDrawdownPct (runBacktest flipOnlyRun DEFAULT_CONFIG DEFAULT_COSTS) = 0 \<and>
   maxDrawdownSpec (backtestResult.trades (runBacktest flipOnlyRun DEFAULT_CONFIG DEFAULT_COSTS)) = 2"
  by (simp add: runBacktest_fields flipOnlyRun_final closeTrade_fields sample_trade_values
      maxDrawdownSpec_def Let_def)

text \<open>
  Two closures at one candle are followed by one recomputation. On \<open>doubleCloseRun\<close> the
  long is closed by the zone flip, net PnL -12.2, and the short opened there reaches its
  profit target at the same candle, net PnL 8: the equity falls to 87.8 and ends at 95.8.
  The returned maximal drawdown is 4.2, not 12.2.
\<close>

lemma maxDrawdown_misses_first_of_two_closures:
  "map exitReason (backtestResult.trades (runBacktest doubleCloseRun DEFAULT_CONFIG DEFAULT_COSTS))
     = [''zone-flip'', ''profit-target''] \<and>
   map exitTime (backtestResult.trades (runBacktest doubleCloseRun DEFAULT_CONFIG DEFAULT_COSTS))
     = [1764685800000, 1764685800000] \<and>
   maxDrawdownPct (runBacktest doubleCloseRun DEFAULT_CONFIG DEFAULT_COSTS) = 21 / 5 \<and>
   maxDrawdownSpec (backtestResult.trades (runBacktest doubleCloseRun DEFAULT_CONFIG DEFAULT_COSTS))
     = 61 / 5"
  by (simp add: runBacktest_fields doubleCloseRun_final maxDrawdownSpec_def Let_def)

section \<open>Properties of the program over doubles\<close>

subsection \<open>Rounding to a double\<close>

text \<open>
  \<open>ilog2\<close> is the binary exponent, so that the scaled magnitude has 53 bits; \<open>dbl\<close> keeps
  the sign and zero, is within a relative error of \<open>2^-53\<close>, and is the one number with a
  significand of 53 bits within half a unit in the last place.
\<close>

lemma pow2_powr: "pow2 e = 2 powr (real_of_int e)"
proof (cases "0 \<le> e")
  case True
  then show ?thesis
    by (simp add: pow2_def powr_realpow [symmetric])
next
  case False
  then have "real_of_int e = - real (nat (- e))" by simp
  then have "2 powr (real_of_int e) = inverse (2 powr real (nat (- e)))"
    by (simp only: powr_minus)
  also have "\<dots> = 1 / 2 ^ nat (- e)"
    by (simp add: powr_realpow inverse_eq_divide)
  finally show ?thesis using False by (simp add: pow2_def)
qed

lemma pow2_pos: "0 < pow2 e"
  by (simp add: pow2_powr)

lemma pow2_add: "pow2 (a + b) = pow2 a * pow2 b"
  by (simp add: pow2_powr powr_add)

lemma pow2_nat: "pow2 (int n) = 2 ^ n"
  by (simp add: pow2_def)

lemma ilog2_bounds:
  assumes "0 < x"
  shows "pow2 (ilog2 x) \<le> x" and "x < pow2 (ilog2 x + 1)"
proof -
  have "pow2 (ilog2 x) \<le> x \<and> x < pow2 (ilog2 x + 1)"
  proof (cases "1 \<le> x")
    case True
    define n where "n = \<lfloor>x\<rfloor>"
    have n: "0 < n" using True by (simp add: n_def)
    from bitlen_bounds [OF n]
    have b: "2 ^ nat (bitlen n - 1) \<le> n" "n < 2 ^ nat (bitlen n)" by simp_all
    have bl: "1 \<le> bitlen n"
    proof (rule ccontr)
      assume "\<not> 1 \<le> bitlen n"
      then have "nat (bitlen n) = 0" by simp
      with b(2) n show False by simp
    qed
    have "real_of_int (2 ^ nat (bitlen n - 1)) \<le> real_of_int n"
      using b(1) by (simp only: of_int_le_iff)
    then have "(2::real) ^ nat (bitlen n - 1) \<le> real_of_int n" by simp
    moreover have "real_of_int n \<le> x" by (simp add: n_def)
    ultimately have lo: "2 ^ nat (bitlen n - 1) \<le> x" by linarith
    have "n + 1 \<le> 2 ^ nat (bitlen n)" using b(2) by simp
    then have "real_of_int (n + 1) \<le> real_of_int (2 ^ nat (bitlen n))"
      by (simp only: of_int_le_iff)
    then have "real_of_int (n + 1) \<le> (2::real) ^ nat (bitlen n)" by simp
    moreover have "x < real_of_int (n + 1)" by (simp add: n_def)
    ultimately have hi: "x < 2 ^ nat (bitlen n)" by linarith
    show ?thesis
      using True lo hi bl by (simp add: ilog2_def pow2_def n_def [symmetric])
  next
    case False
    define y where "y = 1 / x"
    define n where "n = \<lceil>y\<rceil> - 1"
    have y1: "1 < y" using False assms by (simp add: y_def)
    have n: "0 < n" using y1 by (simp add: n_def less_ceiling_iff)
    from bitlen_bounds [OF n]
    have b: "2 ^ nat (bitlen n - 1) \<le> n" "n < 2 ^ nat (bitlen n)" by simp_all
    have bl: "1 \<le> bitlen n"
    proof (rule ccontr)
      assume "\<not> 1 \<le> bitlen n"
      then have "nat (bitlen n) = 0" by simp
      with b(2) n show False by simp
    qed
    have ny: "real_of_int n < y" "y \<le> real_of_int n + 1"
      by (simp_all add: n_def) linarith+
    have "real_of_int (2 ^ nat (bitlen n - 1)) \<le> real_of_int n"
      using b(1) by (simp only: of_int_le_iff)
    then have "(2::real) ^ nat (bitlen n - 1) \<le> real_of_int n" by simp
    then have lo: "2 ^ nat (bitlen n - 1) < y" using ny(1) by linarith
    have "n + 1 \<le> 2 ^ nat (bitlen n)" using b(2) by simp
    then have "real_of_int (n + 1) \<le> real_of_int (2 ^ nat (bitlen n))"
      by (simp only: of_int_le_iff)
    then have "real_of_int (n + 1) \<le> (2::real) ^ nat (bitlen n)" by simp
    then have hi: "y \<le> 2 ^ nat (bitlen n)" using ny(2) by simp
    have x: "x = 1 / y" using assms by (simp add: y_def)
    have ypos: "0 < y" using y1 by simp
    have p1: "1 / 2 ^ nat (bitlen n) \<le> x"
      unfolding x using hi ypos by (simp add: frac_le)
    have p2: "x < 1 / 2 ^ nat (bitlen n - 1)"
      unfolding x using lo by (simp add: frac_less2)
    have e: "ilog2 x = - bitlen n" using False by (simp add: ilog2_def n_def y_def)
    have "pow2 (- bitlen n) = 1 / 2 ^ nat (bitlen n)"
      using bl by (simp add: pow2_def)
    moreover have "pow2 (- bitlen n + 1) = 1 / 2 ^ nat (bitlen n - 1)"
    proof (cases "bitlen n = 1")
      case True then show ?thesis by (simp add: pow2_def)
    next
      case False
      then have "- bitlen n + 1 < 0" using bl by simp
      moreover have "nat (- (- bitlen n + 1)) = nat (bitlen n - 1)" by simp
      ultimately show ?thesis by (simp add: pow2_def)
    qed
    ultimately show ?thesis using p1 p2 e by simp
  qed
  then show "pow2 (ilog2 x) \<le> x" and "x < pow2 (ilog2 x + 1)" by simp_all
qed

lemma roundEven_error: "\<bar>real_of_int (roundEven m) - m\<bar> \<le> 1 / 2"
proof -
  have "0 \<le> m - real_of_int \<lfloor>m\<rfloor>" "m - real_of_int \<lfloor>m\<rfloor> < 1" by linarith+
  then show ?thesis by (auto simp add: roundEven_def Let_def)
qed

lemma roundEven_ge:
  assumes "real_of_int k \<le> m"
  shows "k \<le> roundEven m"
proof -
  have "k \<le> \<lfloor>m\<rfloor>" using assms by (simp add: le_floor_iff)
  then show ?thesis unfolding roundEven_def Let_def by simp
qed

text \<open>The scaled magnitude of a non-zero number lies in [2^52, 2^53).\<close>

lemma scaled_bounds:
  assumes "x \<noteq> 0"
  defines "e \<equiv> ilog2 \<bar>x\<bar> - 52"
  shows "2 ^ 52 \<le> \<bar>x\<bar> / pow2 e" and "\<bar>x\<bar> / pow2 e < 2 ^ 53"
proof -
  have pos: "0 < \<bar>x\<bar>" using assms by simp
  note b = ilog2_bounds [OF pos]
  have p52: "pow2 52 = 2 ^ 52" using pow2_nat [of 52] by simp
  have "ilog2 \<bar>x\<bar> = e + 52" by (simp add: e_def)
  then have e1: "pow2 (ilog2 \<bar>x\<bar>) = pow2 e * 2 ^ 52"
    by (simp only: pow2_add p52)
  have p53: "pow2 53 = 2 ^ 53" using pow2_nat [of 53] by simp
  have "ilog2 \<bar>x\<bar> + 1 = e + 53" by (simp add: e_def)
  then have e2: "pow2 (ilog2 \<bar>x\<bar> + 1) = pow2 e * 2 ^ 53"
    by (simp only: pow2_add p53)
  show "2 ^ 52 \<le> \<bar>x\<bar> / pow2 e"
    using b(1) pow2_pos [of e] unfolding e1 by (simp add: pos_le_divide_eq mult.commute)
  show "\<bar>x\<bar> / pow2 e < 2 ^ 53"
    using b(2) pow2_pos [of e] unfolding e2 by (simp add: pos_divide_less_eq mult.commute)
qed

lemma dbl_abs:
  assumes "x \<noteq> 0"
  shows "\<bar>dbl x\<bar> = real_of_int (roundEven (\<bar>x\<bar> / pow2 (ilog2 \<bar>x\<bar> - 52))) * pow2 (ilog2 \<bar>x\<bar> - 52)"
    and "2 ^ 52 \<le> roundEven (\<bar>x\<bar> / pow2 (ilog2 \<bar>x\<bar> - 52))"
proof -
  have "real_of_int (2 ^ 52) \<le> \<bar>x\<bar> / pow2 (ilog2 \<bar>x\<bar> - 52)"
    using scaled_bounds(1) [OF assms] by simp
  then show r: "2 ^ 52 \<le> roundEven (\<bar>x\<bar> / pow2 (ilog2 \<bar>x\<bar> - 52))"
    by (rule roundEven_ge)
  then have "0 \<le> real_of_int (roundEven (\<bar>x\<bar> / pow2 (ilog2 \<bar>x\<bar> - 52)))" by simp
  then show "\<bar>dbl x\<bar> = real_of_int (roundEven (\<bar>x\<bar> / pow2 (ilog2 \<bar>x\<bar> - 52))) * pow2 (ilog2 \<bar>x\<bar> - 52)"
    using assms pow2_pos [of "ilog2 \<bar>x\<bar> - 52"]
    by (simp add: dbl_def Let_def abs_mult abs_sgn_eq)
qed

lemma dbl_sgn: "sgn (dbl x) = sgn x"
proof (cases "x = 0")
  case True then show ?thesis by (simp add: dbl_def)
next
  case False
  define P where "P = real_of_int (roundEven (\<bar>x\<bar> / pow2 (ilog2 \<bar>x\<bar> - 52))) * pow2 (ilog2 \<bar>x\<bar> - 52)"
  from dbl_abs(2) [OF False]
  have "0 < real_of_int (roundEven (\<bar>x\<bar> / pow2 (ilog2 \<bar>x\<bar> - 52)))" by simp
  then have P: "0 < P"
    using pow2_pos by (simp add: P_def)
  have "dbl x = sgn x * P" using False by (simp add: dbl_def Let_def P_def)
  then show ?thesis using P by (simp add: sgn_mult)
qed

lemma dbl_eq_0_iff: "dbl x = 0 \<longleftrightarrow> x = 0"
  using dbl_sgn [of x] by (metis sgn_0_0)

lemma dbl_pos_iff: "0 < dbl x \<longleftrightarrow> 0 < x"
  using dbl_sgn [of x] by (metis sgn_1_pos)

lemma dbl_neg_iff: "dbl x < 0 \<longleftrightarrow> x < 0"
  using dbl_sgn [of x] by (metis sgn_1_neg)

lemma dbl_nonneg_iff: "0 \<le> dbl x \<longleftrightarrow> 0 \<le> x"
  using dbl_neg_iff [of x] by linarith

lemma dbl_minus: "dbl (- x) = - dbl x"
  by (simp add: dbl_def Let_def)

text \<open>The relative error of rounding is at most 2^-53.\<close>

lemma dbl_error: "\<bar>dbl x - x\<bar> \<le> \<bar>x\<bar> / 2 ^ 53"
proof (cases "x = 0")
  case True then show ?thesis by (simp add: dbl_def)
next
  case False
  define e where "e = ilog2 \<bar>x\<bar> - 52"
  define m where "m = \<bar>x\<bar> / pow2 e"
  have p: "0 < pow2 e" by (rule pow2_pos)
  have x: "\<bar>x\<bar> = m * pow2 e" using p by (simp add: m_def)
  have d: "dbl x = sgn x * (real_of_int (roundEven m) * pow2 e)"
    using False by (simp add: dbl_def Let_def e_def m_def)
  have "dbl x - sgn x * \<bar>x\<bar> = sgn x * (real_of_int (roundEven m) * pow2 e - \<bar>x\<bar>)"
    by (simp only: d right_diff_distrib)
  then have "dbl x - x = sgn x * (real_of_int (roundEven m) * pow2 e - \<bar>x\<bar>)"
    by (simp only: sgn_mult_abs)
  also have "\<dots> = sgn x * ((real_of_int (roundEven m) - m) * pow2 e)"
    by (simp add: x algebra_simps)
  finally have "\<bar>dbl x - x\<bar> = \<bar>real_of_int (roundEven m) - m\<bar> * pow2 e"
    using False p by (simp add: abs_mult abs_sgn_eq)
  also have "\<dots> \<le> 1 / 2 * pow2 e"
    using roundEven_error [of m] p by (simp add: mult_right_mono)
  also have "\<dots> \<le> m / 2 ^ 53 * pow2 e"
  proof -
    have "2 ^ 52 \<le> m" using scaled_bounds(1) [OF False] by (simp add: m_def e_def)
    then have "1 / 2 \<le> m / 2 ^ 53" by simp
    then show ?thesis using p by (simp add: mult_right_mono)
  qed
  also have "\<dots> = \<bar>x\<bar> / 2 ^ 53" by (simp add: x)
  finally show ?thesis .
qed

lemma pow2_less_iff: "pow2 a < pow2 b \<longleftrightarrow> a < b"
  by (simp add: pow2_powr)

lemma ilog2_unique:
  assumes "pow2 a \<le> x" and "x < pow2 (a + 1)"
  shows "ilog2 x = a"
proof -
  have pos: "0 < x" using assms(1) pow2_pos [of a] by linarith
  note b = ilog2_bounds [OF pos]
  have "pow2 (ilog2 x) < pow2 (a + 1)" using b(1) assms(2) by linarith
  then have "ilog2 x < a + 1" by (simp only: pow2_less_iff)
  moreover have "pow2 a < pow2 (ilog2 x + 1)" using b(2) assms(1) by linarith
  then have "a < ilog2 x + 1" by (simp only: pow2_less_iff)
  ultimately show ?thesis by linarith
qed

lemma roundEven_unique:
  assumes "real_of_int n - 1 / 2 < m" and "m < real_of_int n + 1 / 2"
  shows "roundEven m = n"
proof -
  have "\<lfloor>m\<rfloor> = n \<or> \<lfloor>m\<rfloor> = n - 1"
    using assms by linarith
  then show ?thesis
  proof
    assume f: "\<lfloor>m\<rfloor> = n"
    then have "m - real_of_int \<lfloor>m\<rfloor> < 1 / 2" using assms by simp
    with f show ?thesis by (simp add: roundEven_def Let_def)
  next
    assume f: "\<lfloor>m\<rfloor> = n - 1"
    then have "1 / 2 < m - real_of_int \<lfloor>m\<rfloor>" using assms by simp
    with f show ?thesis by (simp add: roundEven_def Let_def)
  qed
qed

text \<open>
  A positive number within half a unit in the last place of \<open>n * 2^k\<close>, a significand of
  53 bits, is rounded to it.
\<close>

lemma dbl_unique:
  assumes n: "2 ^ 52 < n" "n < 2 ^ 53"
    and lo: "(real_of_int n - 1 / 2) * pow2 k < x"
    and hi: "x < (real_of_int n + 1 / 2) * pow2 k"
  shows "dbl x = real_of_int n * pow2 k"
proof -
  have p: "0 < pow2 k" by (rule pow2_pos)
  have n1: "2 ^ 52 + 1 \<le> real_of_int n"
  proof -
    have "2 ^ 52 + 1 \<le> n" using n(1) by simp
    then have "real_of_int (2 ^ 52 + 1) \<le> real_of_int n" by (simp only: of_int_le_iff)
    then show ?thesis by simp
  qed
  have n2: "real_of_int n + 1 \<le> 2 ^ 53"
  proof -
    have "n + 1 \<le> 2 ^ 53" using n(2) by simp
    then have "real_of_int (n + 1) \<le> real_of_int (2 ^ 53)" by (simp only: of_int_le_iff)
    then show ?thesis by simp
  qed
  have "2 ^ 52 * pow2 k \<le> (real_of_int n - 1 / 2) * pow2 k"
    using n1 p by (intro mult_right_mono) simp_all
  then have l: "pow2 (k + 52) \<le> x"
    using lo pow2_add [of k 52] pow2_nat [of 52] by (simp add: mult.commute)
  have "(real_of_int n + 1 / 2) * pow2 k \<le> 2 ^ 53 * pow2 k"
    using n2 p by (intro mult_right_mono) simp_all
  then have h: "x < pow2 (k + 52 + 1)"
    using hi pow2_add [of k 53] pow2_nat [of 53] by (simp add: mult.commute add.assoc)
  have pos: "0 < x" using l pow2_pos [of "k + 52"] by linarith
  have e: "ilog2 x - 52 = k" using ilog2_unique [OF l h] by simp
  have "real_of_int n - 1 / 2 < x / pow2 k" "x / pow2 k < real_of_int n + 1 / 2"
    using lo hi p by (simp_all add: pos_less_divide_eq pos_divide_less_eq)
  then have "roundEven (x / pow2 k) = n" by (rule roundEven_unique)
  then show ?thesis using pos e by (simp add: dbl_def Let_def)
qed

lemma fsqrt_unique:
  assumes n: "2 ^ 52 < n" "n < 2 ^ 53"
    and lo: "((real_of_int n - 1 / 2) * pow2 k)\<^sup>2 < v"
    and hi: "v < ((real_of_int n + 1 / 2) * pow2 k)\<^sup>2"
  shows "fsqrt v = real_of_int n * pow2 k"
proof -
  have p: "0 < pow2 k" by (rule pow2_pos)
  have "0 < real_of_int n + 1 / 2" using n(1) by simp
  then have nn: "0 \<le> (real_of_int n + 1 / 2) * pow2 k" using p by simp
  have "(real_of_int n - 1 / 2) * pow2 k < sqrt v"
    using lo by (rule real_less_rsqrt)
  moreover have "sqrt v < (real_of_int n + 1 / 2) * pow2 k"
    using nn hi by (rule real_less_lsqrt)
  ultimately show ?thesis
    unfolding fsqrt_def using n by (intro dbl_unique)
qed

text \<open>A number with a significand of 53 bits is rounded to itself.\<close>

lemma dbl_representable:
  assumes "2 ^ 52 < n" and "n < 2 ^ 53"
  shows "dbl (real_of_int n * pow2 k) = real_of_int n * pow2 k"
proof -
  have p: "0 < pow2 k" by (rule pow2_pos)
  have "(real_of_int n - 1 / 2) * pow2 k < real_of_int n * pow2 k"
    using p by (simp add: mult_strict_right_mono)
  moreover have "real_of_int n * pow2 k < (real_of_int n + 1 / 2) * pow2 k"
    using p by (simp add: mult_strict_right_mono)
  ultimately show ?thesis using assms by (intro dbl_unique)
qed

text \<open>\<open>Math.sqrt(252)\<close> is 15.874507866387544.\<close>

lemma fsqrt_252: "fsqrt 252 = 8936553463969119 / 562949953421312"
proof -
  have "fsqrt 252 = real_of_int 8936553463969119 * pow2 (- 49)"
    by (rule fsqrt_unique) (simp_all add: pow2_def power2_eq_square)
  then show ?thesis by (simp add: pow2_def)
qed

subsection \<open>Evaluating the rounded program\<close>

text \<open>
  The equations that compute \<open>dbl\<close> at a numeral, and two values known from JavaScript:
  0.1 is 3602879701896397 / 2^55 and 0.1 + 0.2 is 0.30000000000000004.
\<close>

lemmas dbl_eval = dbl_def ilog2_def pow2_def roundEven_def Let_def compute_bitlen
  fadd_def fsub_def fmul_def fdiv_def

lemma dbl_tenth: "dbl (1 / 10) = 3602879701896397 / 36028797018963968"
  by (simp add: dbl_eval)

lemma fadd_tenths: "fadd (dbl (1 / 10)) (dbl (2 / 10)) = 1351079888211149 / 4503599627370496"
  by (simp add: dbl_eval)

text \<open>The equations of the loop, for its evaluation on a sample run.\<close>

lemmas runD_eval = loopD.simps stepD_def zoneFlipD_def checkPositionD_def trackDrawdownD_def
  closeRemainingD_def recordTradeD_def closeTradeD_def calcNetPnlD_def calcTradingCostsD_def
  calcTradePnlD_def calcProfitPctD_def checkTpZoneExitD_def shouldEnterTpZone_def toNumber_def
  initState_def mkCandle_def mkPosition_def

subsection \<open>The equity over doubles\<close>

lemma trackDrawdownD_fields:
  "state.trades (trackDrawdownD st) = state.trades st"
  "equity (trackDrawdownD st) = equity st"
  "position (trackDrawdownD st) = position st"
  "previousZone (trackDrawdownD st) = previousZone st"
  by (simp_all add: trackDrawdownD_def Let_def)

lemma runBacktestD_fields:
  "backtestResult.trades (runBacktestD cs cfg cc) =
     state.trades (closeRemainingD cfg cc cs (loopD cfg cc initState cs))"
  "backtestResult.netPnlPct (runBacktestD cs cfg cc) =
     fsub (equity (closeRemainingD cfg cc cs (loopD cfg cc initState cs))) 100"
  "maxDrawdownPct (runBacktestD cs cfg cc) =
     maxDrawdown (closeRemainingD cfg cc cs (loopD cfg cc initState cs))"
  by (simp_all add: runBacktestD_def calculateStatsD_def Let_def)

lemma zoneFlipD_equityInvD: "equityInvD st \<Longrightarrow> equityInvD (zoneFlipD cfg cc c z st)"
  by (simp add: equityInvD_def zoneFlipD_def recordTradeD_def Let_def split: option.splits)

lemma checkPositionD_equityInvD: "equityInvD st \<Longrightarrow> equityInvD (checkPositionD cfg cc c st)"
  by (simp add: equityInvD_def checkPositionD_def recordTradeD_def Let_def split: option.splits)

lemma stepD_equityInvD: "equityInvD st \<Longrightarrow> equityInvD (stepD cfg cc st c)"
proof -
  assume "equityInvD st"
  then have "equityInvD (checkPositionD cfg cc c (zoneFlipD cfg cc c (getZone (timestamp c) cfg) st))"
    by (intro checkPositionD_equityInvD zoneFlipD_equityInvD)
  then show ?thesis
    by (simp add: equityInvD_def stepD_def Let_def trackDrawdownD_fields)
qed

lemma loopD_equityInvD: "equityInvD st \<Longrightarrow> equityInvD (loopD cfg cc st cs)"
  by (induction cs arbitrary: st) (simp_all add: stepD_equityInvD)

lemma closeRemainingD_equityInvD:
  "equityInvD st \<Longrightarrow> equityInvD (closeRemainingD cfg cc cs st)"
  by (simp add: equityInvD_def closeRemainingD_def recordTradeD_def Let_def split: option.splits)

subsection \<open>Two sample runs over doubles\<close>

text \<open>
  The two sample runs, evaluated. On \<open>targetRun\<close> the long opened on Monday at 16:05 is
  closed on Tuesday at 04:00 at its profit target, 11 hours 55 minutes and one funding
  period later; on \<open>flatRun\<close> three positions are closed at their entry price.
\<close>

lemma targetRun_final:
  "closeRemainingD DEFAULT_CONFIG DEFAULT_COSTS targetRun
     (loopD DEFAULT_CONFIG DEFAULT_COSTS initState targetRun) =
   \<lparr>state.trades =
      [\<lparr>entryTime = 1764623100000, exitTime = 1764666000000, entryPrice = 100,
        exitPrice = 101, side = Long, exitReason = ''profit-target'',
        grossPnlPct = 10, netPnlPct = 4447304632028365 / 562949953421312,
        durationHours = 6708486944937301 / 562949953421312,
        costs = \<lparr>feesPct = 3602879701896397 / 36028797018963968,
                  slippagePct = 3602879701896397 / 36028797018963968,
                  fundingPct = 5764607523034235 / 576460752303423488,
                  fundingPeriods = 1,
                  totalCostPct = 3783023686991217 / 18014398509481984,
                  leveragedCostPct = 4728779608739021 / 2251799813685248\<rparr>\<rparr>],
    position = None,
    previousZone = Some Long, equity = 3796393748384973 / 35184372088832,
    peakEquity = 3796393748384973 / 35184372088832, maxDrawdown = 0,
    totalCosts = \<lparr>fees = 1, slippage = 1,
                   funding = 3602879701896397 / 36028797018963968\<rparr>\<rparr>"
proof -
  have z: "getZone 1764622500000 DEFAULT_CONFIG = Short"
    "getZone 1764623100000 DEFAULT_CONFIG = Long"
    "getZone 1764666000000 DEFAULT_CONFIG = Long"
    by code_simp+
  have h: "getHoursUntilShortZoneD 1764666000000 DEFAULT_CONFIG =
           6173684489187055 / 1125899906842624"
    by code_simp
  show ?thesis
    unfolding targetRun_def
    by (simp add: runD_eval DEFAULT_CONFIG_def DEFAULT_COSTS_def
          z [unfolded DEFAULT_CONFIG_def] h [unfolded DEFAULT_CONFIG_def] dbl_eval
          split del: if_split
          cong: let_weak_cong if_weak_cong prod.case_cong_weak option.case_cong_weak)
qed

lemma flatRun_final:
  "closeRemainingD unleveraged noFunding flatRun
     (loopD unleveraged noFunding initState flatRun) =
   \<lparr>state.trades =
      [\<lparr>entryTime = 1764599400000, exitTime = 1764623100000, entryPrice = 100,
        exitPrice = 100, side = Short, exitReason = ''zone-flip'',
        grossPnlPct = 0, netPnlPct = - (3602879701896397 / 18014398509481984),
        durationHours = 7412174386713941 / 1125899906842624,
        costs = \<lparr>feesPct = 3602879701896397 / 36028797018963968,
                  slippagePct = 3602879701896397 / 36028797018963968,
                  fundingPct = 0, fundingPeriods = 0,
                  totalCostPct = 3602879701896397 / 18014398509481984,
                  leveragedCostPct = 3602879701896397 / 18014398509481984\<rparr>\<rparr>,
       \<lparr>entryTime = 1764623100000, exitTime = 1764685800000, entryPrice = 100,
        exitPrice = 100, side = Long, exitReason = ''zone-flip'',
        grossPnlPct = 0, netPnlPct = - (3602879701896397 / 18014398509481984),
        durationHours = 4902355844377259 / 281474976710656,
        costs = \<lparr>feesPct = 3602879701896397 / 36028797018963968,
                  slippagePct = 3602879701896397 / 36028797018963968,
                  fundingPct = 0, fundingPeriods = 2,
                  totalCostPct = 3602879701896397 / 18014398509481984,
                  leveragedCostPct = 3602879701896397 / 18014398509481984\<rparr>\<rparr>,
       \<lparr>entryTime = 1764685800000, exitTime = 1764685800000, entryPrice = 100,
        exitPrice = 100, side = Short, exitReason = ''backtest-end'',
        grossPnlPct = 0, netPnlPct = - (3602879701896397 / 18014398509481984),
        durationHours = 0,
        costs = \<lparr>feesPct = 3602879701896397 / 36028797018963968,
                  slippagePct = 3602879701896397 / 36028797018963968,
                  fundingPct = 0, fundingPeriods = 0,
                  totalCostPct = 3602879701896397 / 18014398509481984,
                  leveragedCostPct = 3602879701896397 / 18014398509481984\<rparr>\<rparr>],
    position = Some (mkPosition Short 100 1764685800000 False None),
    previousZone = Some Short, equity = 6994653171259801 / 70368744177664,
    peakEquity = 100, maxDrawdown = 7205759403792895 / 18014398509481984,
    totalCosts = \<lparr>fees = 1351079888211149 / 4503599627370496,
                   slippage = 1351079888211149 / 4503599627370496, funding = 0\<rparr>\<rparr>"
proof -
  have z: "getZone 1764599100000 unleveraged = Long"
    "getZone 1764599400000 unleveraged = Short"
    "getZone 1764623100000 unleveraged = Long"
    "getZone 1764685800000 unleveraged = Short"
    by code_simp+
  show ?thesis
    unfolding flatRun_def
    by (simp add: runD_eval unleveraged_def noFunding_def DEFAULT_CONFIG_def DEFAULT_COSTS_def
          z [unfolded unleveraged_def DEFAULT_CONFIG_def, simplified] dbl_eval
          split del: if_split
          cong: let_weak_cong if_weak_cong prod.case_cong_weak option.case_cong_weak)
qed

subsection \<open>Net PnL over doubles\<close>

text \<open>Each addition is off by at most the relative error of one rounding.\<close>

lemma foldl_fadd_error:
  "\<bar>foldl fadd a ts - (a + sum_list ts)\<bar> \<le> sum_list (map abs (additions a ts)) / 2 ^ 53"
proof (induction ts arbitrary: a)
  case Nil
  then show ?case by simp
next
  case (Cons t ts)
  have "\<bar>foldl fadd (fadd a t) ts - (fadd a t + sum_list ts)\<bar>
        \<le> sum_list (map abs (additions (fadd a t) ts)) / 2 ^ 53"
    by (rule Cons.IH)
  moreover have "\<bar>fadd a t - (a + t)\<bar> \<le> \<bar>a + t\<bar> / 2 ^ 53"
    unfolding fadd_def by (rule dbl_error)
  ultimately have "\<bar>foldl fadd (fadd a t) ts - (a + t + sum_list ts)\<bar>
        \<le> \<bar>a + t\<bar> / 2 ^ 53 + sum_list (map abs (additions (fadd a t) ts)) / 2 ^ 53"
    by linarith
  then show ?case by (simp add: add_divide_distrib add.assoc)
qed

lemma netPnlPct_equity_trades:
  "backtestResult.netPnlPct (runBacktestD cs cfg cc) =
   fsub (foldl fadd 100
           (map trade.netPnlPct (backtestResult.trades (runBacktestD cs cfg cc)))) 100"
proof -
  have "equityInvD initState"
    by (simp add: equityInvD_def initState_def)
  then have "equityInvD (closeRemainingD cfg cc cs (loopD cfg cc initState cs))"
    by (intro closeRemainingD_equityInvD loopD_equityInvD)
  then show ?thesis by (simp add: runBacktestD_fields equityInvD_def)
qed

text \<open>
  C10, as the program computes it. The net PnL that \<open>runBacktest\<close> returns is the final
  equity less 100, and the final equity is 100 with the net PnL of the trades of the
  returned log added one by one, in the order of the log; every addition and the
  subtraction are rounded. It differs from the exact sum of the net PnL of the trades by
  at most the rounding errors of these operations, each at most \<open>2^-53\<close> of the exact
  result of the operation.
\<close>

theorem netPnlPct_rounded_sum:
  "backtestResult.netPnlPct (runBacktestD cs cfg cc) =
     fsub (foldl fadd 100
             (map trade.netPnlPct (backtestResult.trades (runBacktestD cs cfg cc)))) 100 \<and>
   \<bar>backtestResult.netPnlPct (runBacktestD cs cfg cc) -
      sum_list (map trade.netPnlPct (backtestResult.trades (runBacktestD cs cfg cc)))\<bar>
     \<le> (sum_list (map abs (additions 100
               (map trade.netPnlPct (backtestResult.trades (runBacktestD cs cfg cc))))) +
         \<bar>foldl fadd 100
            (map trade.netPnlPct (backtestResult.trades (runBacktestD cs cfg cc))) - 100\<bar>)
       / 2 ^ 53"
proof -
  let ?ts = "map trade.netPnlPct (backtestResult.trades (runBacktestD cs cfg cc))"
  let ?E = "foldl fadd 100 ?ts"
  have eq: "backtestResult.netPnlPct (runBacktestD cs cfg cc) = fsub ?E 100"
    by (rule netPnlPct_equity_trades)
  have "\<bar>fsub ?E 100 - (?E - 100)\<bar> \<le> \<bar>?E - 100\<bar> / 2 ^ 53"
    unfolding fsub_def by (rule dbl_error)
  moreover have "\<bar>?E - (100 + sum_list ?ts)\<bar> \<le> sum_list (map abs (additions 100 ?ts)) / 2 ^ 53"
    by (rule foldl_fadd_error)
  ultimately have "\<bar>fsub ?E 100 - sum_list ?ts\<bar>
      \<le> sum_list (map abs (additions 100 ?ts)) / 2 ^ 53 + \<bar>?E - 100\<bar> / 2 ^ 53"
    by linarith
  then show ?thesis
    unfolding eq by (simp add: add_divide_distrib)
qed

text \<open>
  C10 as stated fails. On \<open>targetRun\<close> with the default configuration the log holds one
  trade, a long closed at its profit target after one funding period, of net PnL 7.9 (the
  double next to it); the equity becomes 107.9 and the net PnL returned is
  7.900000000000006.
\<close>

theorem netPnlPct_not_sum_of_trades:
  "map trade.netPnlPct
     (backtestResult.trades (runBacktestD targetRun DEFAULT_CONFIG DEFAULT_COSTS)) =
     [4447304632028365 / 562949953421312] \<and>
   backtestResult.netPnlPct (runBacktestD targetRun DEFAULT_CONFIG DEFAULT_COSTS) =
     277956539501773 / 35184372088832 \<and>
   backtestResult.netPnlPct (runBacktestD targetRun DEFAULT_CONFIG DEFAULT_COSTS) \<noteq>
     sum_list (map trade.netPnlPct
       (backtestResult.trades (runBacktestD targetRun DEFAULT_CONFIG DEFAULT_COSTS)))"
proof -
  have "fsub (3796393748384973 / 35184372088832) 100 = 277956539501773 / 35184372088832"
    by (simp add: dbl_eval)
  then show ?thesis
    by (simp add: runBacktestD_fields targetRun_final)
qed

subsection \<open>Sharpe ratio over doubles\<close>

lemma fadd_nonneg: "0 \<le> a \<Longrightarrow> 0 \<le> b \<Longrightarrow> 0 \<le> fadd a b"
  by (simp add: fadd_def dbl_nonneg_iff)

lemma fmul_self_nonneg: "0 \<le> fmul d d"
  by (simp add: fmul_def dbl_nonneg_iff)

lemma foldl_squares_nonneg:
  "0 \<le> a \<Longrightarrow> 0 \<le> foldl (\<lambda>s r. fadd s (fmul (f r) (f r))) a rs"
  by (induction rs arbitrary: a) (simp_all add: fadd_nonneg fmul_self_nonneg)

lemma sampleStdDevD_nonneg: "0 \<le> sampleStdDevD rs"
proof (cases "length rs < 2")
  case True
  then show ?thesis by (simp add: sampleStdDevD_def)
next
  case False
  then have "0 < real (length rs) - 1" by simp
  moreover have "0 \<le> foldl (\<lambda>s r. fadd s (fmul (fsub r (meanD rs)) (fsub r (meanD rs)))) 0 rs"
    by (rule foldl_squares_nonneg) simp
  ultimately show ?thesis using False
    by (simp add: sampleStdDevD_def fsqrt_def fdiv_def dbl_nonneg_iff)
qed

lemma avg_codeD:
  "(if length rs > 0 then fdiv (foldl fadd 0 rs) (real (length rs)) else 0) = meanD rs"
  by (simp add: meanD_def)

lemma sd_codeD:
  "(if length rs > 1
    then fsqrt (fdiv (foldl (\<lambda>sum r. fadd sum (fmul (fsub r (meanD rs)) (fsub r (meanD rs))))
                       0 rs)
                 (real (length rs) - 1))
    else 0) = sampleStdDevD rs"
proof (cases "length rs < 2")
  case True
  then have "\<not> length rs > 1" by simp
  with True show ?thesis by (simp only: sampleStdDevD_def if_True if_False)
next
  case False
  then have "length rs > 1" by simp
  with False show ?thesis by (simp only: sampleStdDevD_def if_True if_False)
qed

lemma sharpeRatio_calculateStatsD:
  "sharpeRatio (calculateStatsD ts finalEquity maxDd cfg cc tc) =
     sharpeSpecD (map trade.netPnlPct ts)"
proof -
  let ?rs = "map trade.netPnlPct ts"
  have avg: "(if length ?rs > 0
              then fdiv (foldl fadd 0 ?rs) (real (length ?rs)) else 0) = meanD ?rs"
    by (rule avg_codeD)
  have sd: "(if length ?rs > 1
             then fsqrt (fdiv (foldl (\<lambda>sum r. fadd sum
                                        (fmul (fsub r (meanD ?rs)) (fsub r (meanD ?rs))))
                                0 ?rs)
                          (real (length ?rs) - 1))
             else 0) = sampleStdDevD ?rs"
    by (rule sd_codeD)
  have "sharpeRatio (calculateStatsD ts finalEquity maxDd cfg cc tc) =
        (if sampleStdDevD ?rs > 0
         then fmul (fdiv (meanD ?rs) (sampleStdDevD ?rs)) (fsqrt 252) else 0)"
    unfolding calculateStatsD_def Let_def avg sd by simp
  also have "\<dots> = sharpeSpecD ?rs"
  proof (cases "length ?rs < 2")
    case True
    then show ?thesis by (simp add: sharpeSpecD_def sampleStdDevD_def)
  next
    case False
    with sampleStdDevD_nonneg [of ?rs] show ?thesis
      by (auto simp add: sharpeSpecD_def simp del: length_map)
  qed
  finally show ?thesis .
qed

lemma trades_calculateStatsD:
  "backtestResult.trades (calculateStatsD ts finalEquity maxDd cfg cc tc) = ts"
  by (simp add: calculateStatsD_def Let_def)


text \<open>
  C7, as the program computes it. For every trade log the Sharpe ratio of
  \<open>calculateStats\<close> takes the net PnL of each trade as one return and is
  \<open>mean / stdDev * sqrt 252\<close>, where the mean, the standard deviation with divisor N - 1
  and the ratio are computed in doubles, every operation rounded; it is 0 for fewer than
  two trades and when the computed standard deviation is 0, so no division by zero occurs.
\<close>

theorem sharpeRatio_rounded:
  "sharpeRatio (calculateStatsD ts finalEquity maxDd cfg cc tc) =
     sharpeSpecD (map trade.netPnlPct ts) \<and>
   sharpeRatio (runBacktestD cs cfg cc) =
     sharpeSpecD (map trade.netPnlPct (backtestResult.trades (runBacktestD cs cfg cc)))"
  unfolding runBacktestD_def Let_def sharpeRatio_calculateStatsD trades_calculateStatsD by simp

text \<open>Three equal returns, the double next to -0.2.\<close>

lemma flat_mean:
  "meanD [- (3602879701896397 / 18014398509481984), - (3602879701896397 / 18014398509481984),
          - (3602879701896397 / 18014398509481984)] = - (7205759403792795 / 36028797018963968)"
  by (simp add: meanD_def dbl_eval)

lemma flat_squares:
  "fdiv (foldl (\<lambda>s r. fadd s (fmul (fsub r (- (7205759403792795 / 36028797018963968)))
                                  (fsub r (- (7205759403792795 / 36028797018963968))))) 0
     [- (3602879701896397 / 18014398509481984), - (3602879701896397 / 18014398509481984),
      - (3602879701896397 / 18014398509481984)]) 2 = 3 / 2596148429267413814265248164610048"
  by (simp add: dbl_eval)

lemma fsqrt_flat:
  "fsqrt (3 / 2596148429267413814265248164610048) =
   2757880273211543 / 81129638414606681695789005144064"
proof -
  have "fsqrt (3 / 2596148429267413814265248164610048) =
        real_of_int 5515760546423086 * pow2 (- 107)"
    by (rule fsqrt_unique) (simp_all add: pow2_def power2_eq_square)
  then show ?thesis by (simp add: pow2_def)
qed

lemma flat_sd:
  "sampleStdDevD [- (3602879701896397 / 18014398509481984),
     - (3602879701896397 / 18014398509481984), - (3602879701896397 / 18014398509481984)] =
   2757880273211543 / 81129638414606681695789005144064"
proof -
  have "real (length [- (3602879701896397 / 18014398509481984 :: real),
     - (3602879701896397 / 18014398509481984), - (3602879701896397 / 18014398509481984)]) - 1 = 2"
    by simp
  then show ?thesis
    unfolding sampleStdDevD_def flat_mean
    by (simp only: flat_squares fsqrt_flat) simp
qed

lemma flat_ratio:
  "fmul (fdiv (- (7205759403792795 / 36028797018963968))
           (2757880273211543 / 81129638414606681695789005144064))
     (8936553463969119 / 562949953421312) = - 93397316462190256"
  by (simp add: dbl_eval)

lemma flat_sharpe:
  "sharpeSpecD [- (3602879701896397 / 18014398509481984),
     - (3602879701896397 / 18014398509481984), - (3602879701896397 / 18014398509481984)] =
   - 93397316462190256"
  unfolding sharpeSpecD_def flat_sd flat_mean fsqrt_252 flat_ratio by simp

text \<open>
  C7 as stated fails. On \<open>flatRun\<close>, with leverage 1 and no funding, each of the three
  trades of the log costs fees and slippage only and has the same net PnL, the double next
  to -0.2; their sample standard deviation is 0. The program computes the mean
  -0.20000000000000004, a standard deviation of about 3.4e-17, which is above 0, and
  returns the Sharpe ratio -93397316462190256.
\<close>

theorem sharpeRatio_equal_returns:
  "map trade.netPnlPct (backtestResult.trades (runBacktestD flatRun unleveraged noFunding)) =
     [- (3602879701896397 / 18014398509481984), - (3602879701896397 / 18014398509481984),
      - (3602879701896397 / 18014398509481984)] \<and>
   sampleStdDev (map trade.netPnlPct
     (backtestResult.trades (runBacktestD flatRun unleveraged noFunding))) = 0 \<and>
   sharpeRatio (runBacktestD flatRun unleveraged noFunding) = - 93397316462190256"
proof -
  have tr: "map trade.netPnlPct
      (backtestResult.trades (runBacktestD flatRun unleveraged noFunding)) =
     [- (3602879701896397 / 18014398509481984), - (3602879701896397 / 18014398509481984),
      - (3602879701896397 / 18014398509481984)]"
    by (simp add: runBacktestD_fields flatRun_final)
  have "sharpeRatio (runBacktestD flatRun unleveraged noFunding) =
     sharpeSpecD (map trade.netPnlPct
       (backtestResult.trades (runBacktestD flatRun unleveraged noFunding)))"
    unfolding runBacktestD_def Let_def sharpeRatio_calculateStatsD trades_calculateStatsD
    by simp
  then have sh: "sharpeRatio (runBacktestD flatRun unleveraged noFunding) = - 93397316462190256"
    by (simp only: tr flat_sharpe)
  have sd: "sampleStdDev (map trade.netPnlPct
      (backtestResult.trades (runBacktestD flatRun unleveraged noFunding))) = 0"
    unfolding tr by (simp add: sampleStdDev_def mean_def)
  show ?thesis
    by (rule conjI [OF tr conjI [OF sd sh]])
qed

subsection \<open>The other properties over doubles\<close>

text \<open>The empty candle sequence gives the same zeros.\<close>

lemma runBacktestD_empty:
  "backtestResult.trades (runBacktestD [] cfg cc) = [] \<and>
   backtestResult.netPnlPct (runBacktestD [] cfg cc) = 0 \<and>
   backtestResult.grossPnlPct (runBacktestD [] cfg cc) = 0 \<and>
   backtestResult.winRate (runBacktestD [] cfg cc) = 0 \<and>
   maxDrawdownPct (runBacktestD [] cfg cc) = 0 \<and>
   sharpeRatio (runBacktestD [] cfg cc) = 0"
  by (simp add: runBacktestD_def calculateStatsD_def closeRemainingD_def initState_def
        Let_def fsub_def dbl_def)

text \<open>
  On \<open>flipOnlyRun\<close> the end-of-data closure brings the equity to 98 under a peak of 100
  and the maximal drawdown returned is 0, as in exact arithmetic.
\<close>

lemma flipOnlyRunD_final:
  "equity (closeRemainingD DEFAULT_CONFIG DEFAULT_COSTS flipOnlyRun
     (loopD DEFAULT_CONFIG DEFAULT_COSTS initState flipOnlyRun)) = 98 \<and>
   peakEquity (closeRemainingD DEFAULT_CONFIG DEFAULT_COSTS flipOnlyRun
     (loopD DEFAULT_CONFIG DEFAULT_COSTS initState flipOnlyRun)) = 100 \<and>
   maxDrawdownPct (runBacktestD flipOnlyRun DEFAULT_CONFIG DEFAULT_COSTS) = 0"
proof -
  have z: "getZone 1764599100000 DEFAULT_CONFIG = Long"
    "getZone 1764599400000 DEFAULT_CONFIG = Short"
    by code_simp+
  show ?thesis
    unfolding flipOnlyRun_def runBacktestD_fields
    by (simp add: runD_eval DEFAULT_CONFIG_def DEFAULT_COSTS_def
          z [unfolded DEFAULT_CONFIG_def] dbl_eval
          split del: if_split
          cong: let_weak_cong if_weak_cong prod.case_cong_weak option.case_cong_weak)
qed

end
